theory Spec2Isabelle
  imports Complex_Main
begin

section \<open>Values of the program\<close>

text \<open>
  The numbers of \<^verbatim>\<open>Control_de_Portfolio.py\<close> are Python and numpy floats. A finite
  float is idealised as the real number it stands for (rounding, overflow and the
  infinities are left out); the missing-value marker \<^verbatim>\<open>nan\<close> of numpy and pandas is
  kept, since the provider's tables contain it and Python treats it as a true value.
  A Python variable that may hold \<^verbatim>\<open>None\<close> is a \<open>pynum option\<close>.
\<close>

datatype pynum = Fin real | NaN

type_synonym pyval = "pynum option"

text \<open>Python's \<^verbatim>\<open>bool(x)\<close> for a number: false exactly for zero; \<^verbatim>\<open>nan\<close> is true.\<close>

fun num_truthy :: "pynum \<Rightarrow> bool" where
  "num_truthy (Fin x) = (x \<noteq> 0)"
| "num_truthy NaN = True"

text \<open>Python's \<^verbatim>\<open>bool(x)\<close> for a variable: \<^verbatim>\<open>None\<close> is false.\<close>

fun truthy :: "pyval \<Rightarrow> bool" where
  "truthy None = False"
| "truthy (Some v) = num_truthy v"

fun num_add :: "pynum \<Rightarrow> pynum \<Rightarrow> pynum" where
  "num_add (Fin a) (Fin b) = Fin (a + b)"
| "num_add _ _ = NaN"

fun num_sub :: "pynum \<Rightarrow> pynum \<Rightarrow> pynum" where
  "num_sub (Fin a) (Fin b) = Fin (a - b)"
| "num_sub _ _ = NaN"

text \<open>
  Division. Every division of the program is reached with a denominator that passed a
  truth test (or is the quotient of two such numbers), so the zero denominator is never
  evaluated; the branch is written out so that HOL's \<open>x / 0 = 0\<close> is not relied upon.
\<close>

fun num_div :: "pynum \<Rightarrow> pynum \<Rightarrow> pynum" where
  "num_div (Fin a) (Fin b) = (if b = 0 then NaN else Fin (a / b))"
| "num_div _ _ = NaN"

datatype error = KeyError | IndexError | TypeError | AttributeError | ProviderError

section \<open>The provider's object model\<close>

text \<open>
  A financial statement (\<^verbatim>\<open>quarterly_balance_sheet\<close>, \<^verbatim>\<open>quarterly_financials\<close>) is a
  table whose index holds the line items and whose columns are the quarters, the most
  recent first: a map from the line item to its values.
\<close>

type_synonym statement = "string \<rightharpoonup> pynum list"

text \<open>
  A time series (the dividends, the \<^verbatim>\<open>Close\<close> column of a price history): its rows in
  index order, each with the year of its date, and whether the index is a
  \<^verbatim>\<open>DatetimeIndex\<close> (the empty answer of the provider may come without one, and then
  \<^verbatim>\<open>.index.year\<close> and \<^verbatim>\<open>.resample\<close> raise). A price history is in date order, the
  oldest row first, and has the \<^verbatim>\<open>Close\<close> column of the provider's schema; it is
  \<^verbatim>\<open>empty\<close> exactly when it has no row.
\<close>

record series =
  datetime_index :: bool
  rows :: "(nat \<times> pynum) list"

text \<open>The \<^verbatim>\<open>info\<close> dictionary; a key may be present with the value \<^verbatim>\<open>None\<close>.\<close>

type_synonym info_dict = "string \<rightharpoonup> pyval"

text \<open>
  What the attributes and calls of one \<^verbatim>\<open>yf.Ticker\<close> object answer: a value or an
  exception. An attribute read several times answers the same each time.
\<close>

record stock =
  quarterly_balance_sheet :: "error + statement"
  dividends :: "error + series"
  history_1d :: "error + series"
  info :: "error + info_dict"
  quarterly_financials :: "error + statement"
  history_10y_1mo :: "error + series"

type_synonym provider = "string \<Rightarrow> error + stock"

section \<open>Library operations used by the program\<close>

text \<open>\<^verbatim>\<open>df.loc[k, :].values[0] if k in df.index else None\<close>\<close>

definition primer_valor :: "statement \<Rightarrow> string \<Rightarrow> error + pyval" where
  "primer_valor df k =
     (case df k of
        None \<Rightarrow> Inr None
      | Some [] \<Rightarrow> Inl IndexError
      | Some (v # _) \<Rightarrow> Inr (Some v))"

text \<open>\<^verbatim>\<open>d.get(k)\<close> and \<^verbatim>\<open>d[k]\<close> on a dictionary.\<close>

definition dict_get :: "info_dict \<Rightarrow> string \<Rightarrow> pyval" where
  "dict_get d k = (case d k of None \<Rightarrow> None | Some v \<Rightarrow> v)"

definition dict_item :: "info_dict \<Rightarrow> string \<Rightarrow> error + pyval" where
  "dict_item d k = (case d k of None \<Rightarrow> Inl KeyError | Some v \<Rightarrow> Inr v)"

text \<open>The values of a series that are not \<^verbatim>\<open>nan\<close>: pandas reductions skip the others.\<close>

fun finitos :: "pynum list \<Rightarrow> real list" where
  "finitos [] = []"
| "finitos (Fin x # xs) = x # finitos xs"
| "finitos (NaN # xs) = finitos xs"

text \<open>\<^verbatim>\<open>Series.sum()\<close>: the sum of the values present, zero when there is none.\<close>

definition series_sum :: "pynum list \<Rightarrow> pynum" where
  "series_sum xs = Fin (sum_list (finitos xs))"

text \<open>\<^verbatim>\<open>Series.mean()\<close>: the mean of the values present, \<^verbatim>\<open>nan\<close> when there is none.\<close>

definition series_mean :: "pynum list \<Rightarrow> pynum" where
  "series_mean xs =
     (let ys = finitos xs
      in if ys = [] then NaN else Fin (sum_list ys / real (length ys)))"

text \<open>The values of the rows dated in year \<open>y\<close>.\<close>

definition del_anio :: "nat \<Rightarrow> (nat \<times> pynum) list \<Rightarrow> pynum list" where
  "del_anio y rs = map snd (filter (\<lambda>r. fst r = y) rs)"

text \<open>
  \<^verbatim>\<open>s.groupby(s.index.year).sum()\<close>: one entry per year that has a row, with the sum
  of that year's values; \<^verbatim>\<open>AttributeError\<close> when the index has no \<^verbatim>\<open>year\<close>.
\<close>

definition groupby_year_sum :: "series \<Rightarrow> error + (nat \<times> pynum) list" where
  "groupby_year_sum s =
     (if datetime_index s
      then Inr (map (\<lambda>y. (y, series_sum (del_anio y (rows s))))
                    (sort (remdups (map fst (rows s)))))
      else Inl AttributeError)"

text \<open>\<^verbatim>\<open>.get(k, default)\<close> on the grouped sums.\<close>

definition get_default :: "(nat \<times> pynum) list \<Rightarrow> nat \<Rightarrow> pynum \<Rightarrow> pynum" where
  "get_default g k d = (case map_of g k of None \<Rightarrow> d | Some v \<Rightarrow> v)"

text \<open>
  \<^verbatim>\<open>s.resample('YE').mean()\<close>: one bin per calendar year from the first year with a
  row to the last, each with the mean of its rows (\<^verbatim>\<open>nan\<close> for a year without
  rows); \<^verbatim>\<open>TypeError\<close> when the index is not a \<^verbatim>\<open>DatetimeIndex\<close>.
\<close>

definition resample_YE_mean :: "series \<Rightarrow> error + pynum list" where
  "resample_YE_mean s =
     (if \<not> datetime_index s then Inl TypeError
      else if rows s = [] then Inr []
      else let ys = map fst (rows s)
           in Inr (map (\<lambda>y. series_mean (del_anio y (rows s)))
                       [foldr min ys (hd ys) ..< Suc (foldr max ys (hd ys))]))"

text \<open>\<^verbatim>\<open>s[-n:]\<close>: the last \<open>n\<close> values, all of them when there are fewer.\<close>

definition ultimos :: "nat \<Rightarrow> 'a list \<Rightarrow> 'a list" where
  "ultimos n xs = drop (length xs - n) xs"

text \<open>
  \<^verbatim>\<open>s / x\<close> for a series and a scalar, element by element. Dividing a float by
  \<^verbatim>\<open>None\<close> raises \<^verbatim>\<open>TypeError\<close>; a series without elements divides nothing.
\<close>

definition series_div :: "pynum list \<Rightarrow> pyval \<Rightarrow> error + pynum list" where
  "series_div xs d =
     (case d of
        Some e \<Rightarrow> Inr (map (\<lambda>x. num_div x e) xs)
      | None \<Rightarrow> (if xs = [] then Inr [] else Inl TypeError))"

section \<open>The record of one ticker\<close>

text \<open>The dictionary appended to \<^verbatim>\<open>data\<close>, one field per key, named as the local it holds.\<close>

record snapshot =
  ticker :: string
  activo_corriente :: pyval
  pasivo_corriente :: pyval
  deuda_total :: pyval
  activos_totales :: pyval
  capital_contable :: pyval
  dividendos_anuales :: pyval
  precio_de_cierre :: pyval
  capital_contable_promedio :: pyval
  capitalizacion_bursatil :: pyval
  ventas :: pyval
  utilidad_neta :: pyval
  razon_circulante :: pyval
  deudas_a_activos :: pyval
  deuda_a_capital :: pyval
  rendimiento_dividendos :: pyval
  roa :: pyval
  roe :: pyval
  precio_a_ventas :: pyval
  precio_ganancia :: pyval
  per :: pyval
  per_promedio :: pyval

text \<open>What the program prints: the two messages of its \<^verbatim>\<open>except\<close> clauses.\<close>

datatype log_entry =
  Error_PER_promedio string error
| Error_al_procesar string error

section \<open>The guarded expressions\<close>

text \<open>\<^verbatim>\<open>a - b if a and b else None\<close>\<close>

definition resta_guardada :: "pyval \<Rightarrow> pyval \<Rightarrow> pyval" where
  "resta_guardada a b =
     (if truthy a \<and> truthy b
      then (case (a, b) of (Some x, Some y) \<Rightarrow> Some (num_sub x y) | _ \<Rightarrow> None)
      else None)"

text \<open>\<^verbatim>\<open>a / b if a and b else None\<close>\<close>

definition cociente_guardado :: "pyval \<Rightarrow> pyval \<Rightarrow> pyval" where
  "cociente_guardado a b =
     (if truthy a \<and> truthy b
      then (case (a, b) of (Some x, Some y) \<Rightarrow> Some (num_div x y) | _ \<Rightarrow> None)
      else None)"

text \<open>\<^verbatim>\<open>historial['Close'].iloc[0] if not historial.empty else None\<close>\<close>

definition primer_cierre :: "series \<Rightarrow> pyval" where
  "primer_cierre historial =
     (case rows historial of [] \<Rightarrow> None | r # _ \<Rightarrow> Some (snd r))"

text \<open>
  Lines 43 to 47: the mean of the first two entries of the equity row, when the row is
  there and has at least two entries.
\<close>

definition promedio_capital :: "statement \<Rightarrow> pyval" where
  "promedio_capital balance_sheet =
     (case balance_sheet ''Total Equity Gross Minority Interest'' of
        None \<Rightarrow> None
      | Some equity \<Rightarrow>
          (if 2 \<le> length equity
           then Some (num_div (num_add (equity ! 0) (equity ! 1)) (Fin 2))
           else None))"

text \<open>
  Lines 66 to 72, the body of the inner \<^verbatim>\<open>try\<close>: the yearly means of the monthly
  closing prices, the last ten of them divided by the one \<^verbatim>\<open>eps_hist\<close>, and the mean
  of the quotients.
\<close>

definition calcular_per_promedio :: "stock \<Rightarrow> pyval \<Rightarrow> error + pynum" where
  "calcular_per_promedio stock eps_hist =
     (case history_10y_1mo stock of Inl e \<Rightarrow> Inl e | Inr h \<Rightarrow>
     (case resample_YE_mean h of Inl e \<Rightarrow> Inl e | Inr precio_hist \<Rightarrow>
     (case series_div (ultimos 10 precio_hist) eps_hist of Inl e \<Rightarrow> Inl e | Inr per_anual \<Rightarrow>
      Inr (series_mean per_anual))))"

section \<open>Processing one ticker, and the loop\<close>

text \<open>
  The body of the outer \<^verbatim>\<open>try\<close> for one ticker, statement by statement: the record it
  would append, or the exception that leaves it, together with what the inner
  \<^verbatim>\<open>except\<close> printed on the way.
\<close>

definition procesar :: "provider \<Rightarrow> string \<Rightarrow> (error + snapshot) \<times> log_entry list" where
  "procesar yf tk =
     (case yf tk of Inl e \<Rightarrow> (Inl e, []) | Inr stock \<Rightarrow>
     (case quarterly_balance_sheet stock of Inl e \<Rightarrow> (Inl e, []) | Inr balance_sheet \<Rightarrow>
     (case primer_valor balance_sheet ''Current Assets'' of
        Inl e \<Rightarrow> (Inl e, []) | Inr activo_corriente' \<Rightarrow>
     (case primer_valor balance_sheet ''Current Liabilities'' of
        Inl e \<Rightarrow> (Inl e, []) | Inr pasivo_corriente' \<Rightarrow>
     (case primer_valor balance_sheet ''Total Liabilities Net Minority Interest'' of
        Inl e \<Rightarrow> (Inl e, []) | Inr deuda_total' \<Rightarrow>
     (case primer_valor balance_sheet ''Total Assets'' of
        Inl e \<Rightarrow> (Inl e, []) | Inr activos_totales' \<Rightarrow>
      let capital_contable' = resta_guardada activos_totales' deuda_total' in
     (case dividends stock of Inl e \<Rightarrow> (Inl e, []) | Inr dividendos \<Rightarrow>
     (case groupby_year_sum dividendos of Inl e \<Rightarrow> (Inl e, []) | Inr por_anio \<Rightarrow>
      let dividendos_anuales' = Some (get_default por_anio 2023 (Fin 0)) in
     (case history_1d stock of Inl e \<Rightarrow> (Inl e, []) | Inr historial \<Rightarrow>
      let precio_de_cierre' = primer_cierre historial;
          capital_contable_promedio' = promedio_capital balance_sheet in
     (case info stock of Inl e \<Rightarrow> (Inl e, []) | Inr info' \<Rightarrow>
      let capitalizacion_bursatil' = dict_get info' ''marketCap'';
          ventas' = dict_get info' ''totalRevenue'' in
     (case quarterly_financials stock of Inl e \<Rightarrow> (Inl e, []) | Inr quarterly_financials' \<Rightarrow>
     (case primer_valor quarterly_financials' ''Net Income'' of
        Inl e \<Rightarrow> (Inl e, []) | Inr utilidad_neta' \<Rightarrow>
      let shares_outstanding = dict_get info' ''sharesOutstanding'';
          eps_hist = cociente_guardado utilidad_neta' shares_outstanding;
          (per_promedio', impreso) =
             (case calcular_per_promedio stock eps_hist of
                Inr v \<Rightarrow> (Some v, [])
              | Inl e \<Rightarrow> (None, [Error_PER_promedio tk e]));
          razon_circulante' = cociente_guardado activo_corriente' pasivo_corriente';
          deudas_a_activos' = cociente_guardado deuda_total' activos_totales';
          deuda_a_capital' = cociente_guardado deuda_total' capital_contable';
          rendimiento_dividendos' = cociente_guardado dividendos_anuales' precio_de_cierre';
          roe' = cociente_guardado utilidad_neta' capital_contable_promedio';
          precio_a_ventas' = cociente_guardado capitalizacion_bursatil' ventas';
          precio_ganancia' = cociente_guardado capitalizacion_bursatil' utilidad_neta';
          roa' = cociente_guardado utilidad_neta' activos_totales' in
     (case dict_item info' ''trailingPE'' of
        Inl e \<Rightarrow> (Inl e, impreso) | Inr per' \<Rightarrow>
      (Inr \<lparr> ticker = tk,
              activo_corriente = activo_corriente',
              pasivo_corriente = pasivo_corriente',
              deuda_total = deuda_total',
              activos_totales = activos_totales',
              capital_contable = capital_contable',
              dividendos_anuales = dividendos_anuales',
              precio_de_cierre = precio_de_cierre',
              capital_contable_promedio = capital_contable_promedio',
              capitalizacion_bursatil = capitalizacion_bursatil',
              ventas = ventas',
              utilidad_neta = utilidad_neta',
              razon_circulante = razon_circulante',
              deudas_a_activos = deudas_a_activos',
              deuda_a_capital = deuda_a_capital',
              rendimiento_dividendos = rendimiento_dividendos',
              roa = roa',
              roe = roe',
              precio_a_ventas = precio_a_ventas',
              precio_ganancia = precio_ganancia',
              per = per',
              per_promedio = per_promedio' \<rparr>, impreso))))))))))))))"

text \<open>
  The loop over the tickers, with the list \<^verbatim>\<open>data\<close> and the printed output as its
  state: a record is appended only when the body ended without exception; otherwise
  the outer \<^verbatim>\<open>except\<close> prints and the loop goes on.
\<close>

fun bucle :: "provider \<Rightarrow> string list \<Rightarrow> snapshot list \<times> log_entry list
                \<Rightarrow> snapshot list \<times> log_entry list" where
  "bucle yf [] estado = estado"
| "bucle yf (tk # tickers) (data, salida) =
     (case procesar yf tk of
        (Inr registro, impreso) \<Rightarrow> bucle yf tickers (data @ [registro], salida @ impreso)
      | (Inl e, impreso) \<Rightarrow>
          bucle yf tickers (data, salida @ impreso @ [Error_al_procesar tk e]))"

text \<open>The rows of the returned \<^verbatim>\<open>DataFrame\<close>, and the output printed.\<close>

definition obtener_datos_financieros ::
    "provider \<Rightarrow> string list \<Rightarrow> snapshot list \<times> log_entry list" where
  "obtener_datos_financieros yf tickers = bucle yf tickers ([], [])"

section \<open>Notions of the specification\<close>

text \<open>An input that is present and nonzero.\<close>

definition presente_no_cero :: "pyval \<Rightarrow> bool" where
  "presente_no_cero v = (v \<noteq> None \<and> v \<noteq> Some (Fin 0))"

text \<open>An input that is absent (null) or zero.\<close>

definition ausente_o_cero :: "pyval \<Rightarrow> bool" where
  "ausente_o_cero v = (v = None \<or> v = Some (Fin 0))"

text \<open>The field \<open>q\<close> holds the quotient of the inputs \<open>n\<close> and \<open>d\<close>.\<close>

definition es_cociente :: "pyval \<Rightarrow> pyval \<Rightarrow> pyval \<Rightarrow> bool" where
  "es_cociente q n d =
     (case (n, d) of (Some a, Some b) \<Rightarrow> q = Some (num_div a b) | _ \<Rightarrow> False)"

text \<open>The field \<open>q\<close> holds the difference of the inputs \<open>a\<close> and \<open>b\<close>.\<close>

definition es_diferencia :: "pyval \<Rightarrow> pyval \<Rightarrow> pyval \<Rightarrow> bool" where
  "es_diferencia q a b =
     (case (a, b) of (Some x, Some y) \<Rightarrow> q = Some (num_sub x y) | _ \<Rightarrow> False)"

text \<open>
  The earnings per share of a ticker (the local \<^verbatim>\<open>eps_hist\<close> of lines 61 to 63), from
  the net income of its record and the \<^verbatim>\<open>info\<close> dictionary.
\<close>

definition eps_del_registro :: "snapshot \<Rightarrow> info_dict \<Rightarrow> pyval" where
  "eps_del_registro r d =
     cociente_guardado (utilidad_neta r) (dict_get d ''sharesOutstanding'')"

text \<open>The arithmetic mean of a list of numbers.\<close>

definition media_aritmetica :: "real list \<Rightarrow> real" where
  "media_aritmetica xs = sum_list xs / real (length xs)"

text \<open>The rows that a list of tickers contributes: the record of each one that completes.\<close>

definition filas_completadas :: "provider \<Rightarrow> string list \<Rightarrow> snapshot list" where
  "filas_completadas yf tickers =
     concat (map (\<lambda>tk. case fst (procesar yf tk) of Inr r \<Rightarrow> [r] | Inl e \<Rightarrow> []) tickers)"

text \<open>A result with the ten-year field blanked, to compare everything else.\<close>

definition sin_per_promedio :: "error + snapshot \<Rightarrow> error + snapshot" where
  "sin_per_promedio res = map_sum id (\<lambda>r. r\<lparr>per_promedio := None\<rparr>) res"

section \<open>Fixture data\<close>

text \<open>A company with every field the program reads, two quarters of statements.\<close>

definition balance_acme :: statement where
  "balance_acme =
     [''Current Assets'' \<mapsto> [Fin 150, Fin 140],
      ''Current Liabilities'' \<mapsto> [Fin 100, Fin 90],
      ''Total Liabilities Net Minority Interest'' \<mapsto> [Fin 400, Fin 380],
      ''Total Assets'' \<mapsto> [Fin 1000, Fin 900],
      ''Total Equity Gross Minority Interest'' \<mapsto> [Fin 600, Fin 560]]"

definition dividendos_acme :: series where
  "dividendos_acme =
     \<lparr> datetime_index = True,
       rows = [(2022, Fin 1), (2023, Fin 2), (2023, Fin 3), (2024, Fin 4)] \<rparr>"

text \<open>Monthly closes over eleven calendar years (two rows a year stand for twelve).\<close>

definition precios_acme :: series where
  "precios_acme =
     \<lparr> datetime_index = True,
       rows = [(2016, Fin 1000),
               (2017, Fin 8), (2017, Fin 12), (2018, Fin 18), (2018, Fin 22),
               (2019, Fin 28), (2019, Fin 32), (2020, Fin 38), (2020, Fin 42),
               (2021, Fin 48), (2021, Fin 52), (2022, Fin 58), (2022, Fin 62),
               (2023, Fin 68), (2023, Fin 72), (2024, Fin 78), (2024, Fin 82),
               (2025, Fin 88), (2025, Fin 92), (2026, Fin 98), (2026, Fin 102)] \<rparr>"

definition info_acme :: info_dict where
  "info_acme =
     [''marketCap'' \<mapsto> Some (Fin 5000), ''totalRevenue'' \<mapsto> Some (Fin 2500),
      ''sharesOutstanding'' \<mapsto> Some (Fin 100), ''trailingPE'' \<mapsto> Some (Fin 25)]"

definition stock_acme :: stock where
  "stock_acme =
     \<lparr> quarterly_balance_sheet = Inr balance_acme,
       dividends = Inr dividendos_acme,
       history_1d = Inr \<lparr> datetime_index = True, rows = [(2026, Fin 50)] \<rparr>,
       info = Inr info_acme,
       quarterly_financials = Inr [''Net Income'' \<mapsto> [Fin 200, Fin 180]],
       history_10y_1mo = Inr precios_acme \<rparr>"

definition registro_acme :: snapshot where
  "registro_acme =
     \<lparr> ticker = ''ACME'',
       activo_corriente = Some (Fin 150), pasivo_corriente = Some (Fin 100),
       deuda_total = Some (Fin 400), activos_totales = Some (Fin 1000),
       capital_contable = Some (Fin 600), dividendos_anuales = Some (Fin 5),
       precio_de_cierre = Some (Fin 50), capital_contable_promedio = Some (Fin 580),
       capitalizacion_bursatil = Some (Fin 5000), ventas = Some (Fin 2500),
       utilidad_neta = Some (Fin 200),
       razon_circulante = Some (Fin (3 / 2)), deudas_a_activos = Some (Fin (2 / 5)),
       deuda_a_capital = Some (Fin (2 / 3)), rendimiento_dividendos = Some (Fin (1 / 10)),
       roa = Some (Fin (1 / 5)), roe = Some (Fin (10 / 29)),
       precio_a_ventas = Some (Fin 2), precio_ganancia = Some (Fin 25),
       per = Some (Fin 25), per_promedio = Some (Fin (55 / 2)) \<rparr>"

text \<open>
  A company with gaps: no current liabilities row, zero liabilities, one quarter only,
  no dividend in 2023, an empty one-day history, a null market capitalisation, a zero
  net income.
\<close>

definition balance_cero :: statement where
  "balance_cero =
     [''Current Assets'' \<mapsto> [Fin 150],
      ''Total Liabilities Net Minority Interest'' \<mapsto> [Fin 0],
      ''Total Assets'' \<mapsto> [Fin 1000],
      ''Total Equity Gross Minority Interest'' \<mapsto> [Fin 1000]]"

definition info_cero :: info_dict where
  "info_cero =
     [''marketCap'' \<mapsto> None, ''totalRevenue'' \<mapsto> Some (Fin 2500),
      ''sharesOutstanding'' \<mapsto> Some (Fin 100), ''trailingPE'' \<mapsto> Some (Fin 25)]"

definition stock_cero :: stock where
  "stock_cero =
     \<lparr> quarterly_balance_sheet = Inr balance_cero,
       dividends = Inr \<lparr> datetime_index = True, rows = [(2022, Fin 1), (2024, Fin 4)] \<rparr>,
       history_1d = Inr \<lparr> datetime_index = True, rows = [] \<rparr>,
       info = Inr info_cero,
       quarterly_financials = Inr [''Net Income'' \<mapsto> [Fin 0]],
       history_10y_1mo = Inr precios_acme \<rparr>"

definition registro_cero :: snapshot where
  "registro_cero =
     \<lparr> ticker = ''CERO'',
       activo_corriente = Some (Fin 150), pasivo_corriente = None,
       deuda_total = Some (Fin 0), activos_totales = Some (Fin 1000),
       capital_contable = None, dividendos_anuales = Some (Fin 0),
       precio_de_cierre = None, capital_contable_promedio = None,
       capitalizacion_bursatil = None, ventas = Some (Fin 2500),
       utilidad_neta = Some (Fin 0),
       razon_circulante = None, deudas_a_activos = None,
       deuda_a_capital = None, rendimiento_dividendos = None,
       roa = None, roe = None,
       precio_a_ventas = None, precio_ganancia = None,
       per = Some (Fin 25), per_promedio = None \<rparr>"

text \<open>The first company with a single quarter of balance sheet.\<close>

definition balance_un_trimestre :: statement where
  "balance_un_trimestre =
     [''Current Assets'' \<mapsto> [Fin 150],
      ''Current Liabilities'' \<mapsto> [Fin 100],
      ''Total Liabilities Net Minority Interest'' \<mapsto> [Fin 400],
      ''Total Assets'' \<mapsto> [Fin 1000],
      ''Total Equity Gross Minority Interest'' \<mapsto> [Fin 600]]"

definition stock_un_trimestre :: stock where
  "stock_un_trimestre = stock_acme\<lparr>quarterly_balance_sheet := Inr balance_un_trimestre\<rparr>"

definition registro_un_trimestre :: snapshot where
  "registro_un_trimestre =
     registro_acme\<lparr>ticker := ''UNTRIM'', capital_contable_promedio := None, roe := None\<rparr>"

text \<open>The first company without the key \<^verbatim>\<open>trailingPE\<close>.\<close>

definition stock_sin_per :: stock where
  "stock_sin_per = stock_acme\<lparr>info := Inr (info_acme(''trailingPE'' := None))\<rparr>"

text \<open>The first company without the key \<^verbatim>\<open>sharesOutstanding\<close>.\<close>

definition info_sin_eps :: info_dict where
  "info_sin_eps = info_acme(''sharesOutstanding'' := None)"

definition stock_sin_eps :: stock where
  "stock_sin_eps = stock_acme\<lparr>info := Inr info_sin_eps\<rparr>"

definition registro_sin_eps :: snapshot where
  "registro_sin_eps = registro_acme\<lparr>ticker := ''SINEPS'', per_promedio := None\<rparr>"

text \<open>A second complete company: the first one with another closing price.\<close>

definition historial_otra :: series where
  "historial_otra = \<lparr> datetime_index = True, rows = [(2026, Fin 48)] \<rparr>"

definition stock_otra :: stock where
  "stock_otra = stock_acme\<lparr>history_1d := Inr historial_otra\<rparr>"

definition registro_otra :: snapshot where
  "registro_otra =
     registro_acme\<lparr>ticker := ''OTRA'', precio_de_cierre := Some (Fin 48),
                    rendimiento_dividendos := Some (Fin (5 / 48))\<rparr>"

text \<open>The first company when the fetch of the ten-year history raises.\<close>

definition stock_sin_historia :: stock where
  "stock_sin_historia = stock_acme\<lparr>history_10y_1mo := Inl ProviderError\<rparr>"

definition registro_sin_historia :: snapshot where
  "registro_sin_historia = registro_acme\<lparr>ticker := ''SINHIST'', per_promedio := None\<rparr>"

text \<open>
  The first company when the ten-year history comes back empty and without a
  \<^verbatim>\<open>DatetimeIndex\<close>, so that the resampling raises.
\<close>

definition stock_sin_fechas :: stock where
  "stock_sin_fechas =
     stock_acme\<lparr>history_10y_1mo := Inr \<lparr>datetime_index = False, rows = []\<rparr>\<rparr>"

definition registro_sin_fechas :: snapshot where
  "registro_sin_fechas = registro_acme\<lparr>ticker := ''SINFECHAS'', per_promedio := None\<rparr>"

text \<open>
  The first company without the keys \<^verbatim>\<open>sharesOutstanding\<close> and \<^verbatim>\<open>trailingPE\<close>: the
  ten-year step fails, and then the body of the ticker does.
\<close>

definition info_sin_ambos :: info_dict where
  "info_sin_ambos = info_acme(''sharesOutstanding'' := None, ''trailingPE'' := None)"

definition stock_sin_ambos :: stock where
  "stock_sin_ambos = stock_acme\<lparr>info := Inr info_sin_ambos\<rparr>"

text \<open>A provider that knows these companies and raises for any other symbol.\<close>

definition yf_ejemplo :: provider where
  "yf_ejemplo tk =
     (if tk = ''ACME'' then Inr stock_acme
      else if tk = ''CERO'' then Inr stock_cero
      else if tk = ''UNTRIM'' then Inr stock_un_trimestre
      else if tk = ''SINPER'' then Inr stock_sin_per
      else if tk = ''SINEPS'' then Inr stock_sin_eps
      else if tk = ''OTRA'' then Inr stock_otra
      else if tk = ''SINHIST'' then Inr stock_sin_historia
      else if tk = ''SINFECHAS'' then Inr stock_sin_fechas
      else if tk = ''SINAMBOS'' then Inr stock_sin_ambos
      else Inl ProviderError)"

section \<open>What a produced record holds\<close>

lemmas model_defs =
  procesar_def primer_valor_def dict_get_def dict_item_def series_sum_def series_mean_def
  del_anio_def groupby_year_sum_def get_default_def resample_YE_mean_def ultimos_def
  series_div_def resta_guardada_def cociente_guardado_def primer_cierre_def
  promedio_capital_def calcular_per_promedio_def

lemmas fixture_defs =
  yf_ejemplo_def stock_acme_def stock_cero_def stock_un_trimestre_def stock_sin_per_def
  stock_sin_eps_def stock_otra_def balance_acme_def balance_cero_def
  balance_un_trimestre_def info_acme_def info_cero_def info_sin_eps_def
  dividendos_acme_def precios_acme_def historial_otra_def
  registro_acme_def registro_cero_def registro_un_trimestre_def registro_sin_eps_def
  registro_otra_def stock_sin_historia_def stock_sin_fechas_def
  registro_sin_historia_def registro_sin_fechas_def info_sin_ambos_def stock_sin_ambos_def

text \<open>A record is produced only when every fetch of the body answered.\<close>

lemma procesar_fuentes:
  assumes "procesar yf tk = (Inr r, lg)"
  shows "\<exists>stock bs s h1 d qf.
     yf tk = Inr stock \<and> quarterly_balance_sheet stock = Inr bs \<and>
     dividends stock = Inr s \<and> history_1d stock = Inr h1 \<and> info stock = Inr d \<and>
     quarterly_financials stock = Inr qf"
  using assms
  by (auto simp: procesar_def Let_def split: sum.splits prod.splits)

text \<open>The fields of a produced record, in terms of what was fetched.\<close>

lemma procesar_campos:
  assumes "procesar yf tk = (Inr r, lg)" and "yf tk = Inr stock"
    and "quarterly_balance_sheet stock = Inr bs" and "dividends stock = Inr s"
    and "history_1d stock = Inr h1" and "info stock = Inr d"
    and "quarterly_financials stock = Inr qf"
  shows "ticker r = tk"
    and "primer_valor bs ''Current Assets'' = Inr (activo_corriente r)"
    and "primer_valor bs ''Current Liabilities'' = Inr (pasivo_corriente r)"
    and "primer_valor bs ''Total Liabilities Net Minority Interest'' = Inr (deuda_total r)"
    and "primer_valor bs ''Total Assets'' = Inr (activos_totales r)"
    and "capital_contable r = resta_guardada (activos_totales r) (deuda_total r)"
    and "\<exists>g. groupby_year_sum s = Inr g \<and>
             dividendos_anuales r = Some (get_default g 2023 (Fin 0))"
    and "precio_de_cierre r = primer_cierre h1"
    and "capital_contable_promedio r = promedio_capital bs"
    and "capitalizacion_bursatil r = dict_get d ''marketCap''"
    and "ventas r = dict_get d ''totalRevenue''"
    and "primer_valor qf ''Net Income'' = Inr (utilidad_neta r)"
    and "dict_item d ''trailingPE'' = Inr (per r)"
    and "per_promedio r =
          (case calcular_per_promedio stock
                (cociente_guardado (utilidad_neta r) (dict_get d ''sharesOutstanding'')) of
             Inr v \<Rightarrow> Some v | Inl e \<Rightarrow> None)"
    and "lg =
          (case calcular_per_promedio stock
                (cociente_guardado (utilidad_neta r) (dict_get d ''sharesOutstanding'')) of
             Inr v \<Rightarrow> [] | Inl e \<Rightarrow> [Error_PER_promedio tk e])"
  using assms
  by (auto simp: procesar_def Let_def split: sum.splits prod.splits)

text \<open>Each ratio field is the guarded quotient of two other fields of the record.\<close>

lemma procesar_ratios:
  assumes "procesar yf tk = (Inr r, lg)"
  shows "razon_circulante r = cociente_guardado (activo_corriente r) (pasivo_corriente r)"
    and "deudas_a_activos r = cociente_guardado (deuda_total r) (activos_totales r)"
    and "deuda_a_capital r = cociente_guardado (deuda_total r) (capital_contable r)"
    and "rendimiento_dividendos r =
           cociente_guardado (dividendos_anuales r) (precio_de_cierre r)"
    and "roe r = cociente_guardado (utilidad_neta r) (capital_contable_promedio r)"
    and "precio_a_ventas r = cociente_guardado (capitalizacion_bursatil r) (ventas r)"
    and "precio_ganancia r = cociente_guardado (capitalizacion_bursatil r) (utilidad_neta r)"
    and "roa r = cociente_guardado (utilidad_neta r) (activos_totales r)"
  using assms
  by (auto simp: procesar_def Let_def split: sum.splits prod.splits)

subsection \<open>The guards\<close>

lemma truthy_presente: "truthy v = presente_no_cero v"
proof (cases v)
  case None
  then show ?thesis by (simp add: presente_no_cero_def)
next
  case (Some x)
  then show ?thesis by (cases x) (simp_all add: presente_no_cero_def)
qed

lemma ausente_no_truthy: "ausente_o_cero v = (\<not> truthy v)"
  by (auto simp: truthy_presente presente_no_cero_def ausente_o_cero_def)

lemma cociente_guardado_presente:
  "presente_no_cero n \<Longrightarrow> presente_no_cero d \<Longrightarrow> es_cociente (cociente_guardado n d) n d"
  by (cases n; cases d) (simp_all add: cociente_guardado_def es_cociente_def truthy_presente
        presente_no_cero_def)

lemma cociente_guardado_ausente:
  "ausente_o_cero n \<or> ausente_o_cero d \<Longrightarrow> cociente_guardado n d = None"
  by (auto simp: cociente_guardado_def ausente_no_truthy)

lemma resta_guardada_presente:
  "presente_no_cero a \<Longrightarrow> presente_no_cero b \<Longrightarrow> es_diferencia (resta_guardada a b) a b"
  by (cases a; cases b) (simp_all add: resta_guardada_def es_diferencia_def truthy_presente
        presente_no_cero_def)

lemma resta_guardada_ausente:
  "ausente_o_cero a \<or> ausente_o_cero b \<Longrightarrow> resta_guardada a b = None"
  by (auto simp: resta_guardada_def ausente_no_truthy)

text \<open>On finite numbers with a nonzero denominator the division is the real quotient.\<close>

lemma num_div_Fin: "b \<noteq> 0 \<Longrightarrow> num_div (Fin a) (Fin b) = Fin (a / b)"
  by simp

text \<open>A guarded quotient that is a finite number is not zero.\<close>

lemma cociente_guardado_no_cero: "cociente_guardado n d = Some (Fin e) \<Longrightarrow> e \<noteq> 0"
  by (cases n; cases d)
     (auto simp: cociente_guardado_def split: if_splits elim!: num_div.elims num_truthy.elims)

subsection \<open>The fixtures, evaluated\<close>

lemma procesar_acme: "procesar yf_ejemplo ''ACME'' = (Inr registro_acme, [])"
  by (simp add: fixture_defs model_defs)

lemma procesar_cero:
  "procesar yf_ejemplo ''CERO'' = (Inr registro_cero, [Error_PER_promedio ''CERO'' TypeError])"
  by (simp add: fixture_defs model_defs)

lemma procesar_un_trimestre:
  "procesar yf_ejemplo ''UNTRIM'' = (Inr registro_un_trimestre, [])"
  by (simp add: fixture_defs model_defs)

lemma procesar_sin_per: "procesar yf_ejemplo ''SINPER'' = (Inl KeyError, [])"
  by (simp add: fixture_defs model_defs)

lemma procesar_sin_eps:
  "procesar yf_ejemplo ''SINEPS'' =
     (Inr registro_sin_eps, [Error_PER_promedio ''SINEPS'' TypeError])"
  by (simp add: fixture_defs model_defs)

lemma procesar_otra: "procesar yf_ejemplo ''OTRA'' = (Inr registro_otra, [])"
  by (simp add: fixture_defs model_defs)

lemma procesar_sin_historia:
  "procesar yf_ejemplo ''SINHIST'' =
     (Inr registro_sin_historia, [Error_PER_promedio ''SINHIST'' ProviderError])"
  by (simp add: fixture_defs model_defs)

lemma procesar_sin_fechas:
  "procesar yf_ejemplo ''SINFECHAS'' =
     (Inr registro_sin_fechas, [Error_PER_promedio ''SINFECHAS'' TypeError])"
  by (simp add: fixture_defs model_defs)

lemma procesar_sin_ambos:
  "procesar yf_ejemplo ''SINAMBOS'' =
     (Inl KeyError, [Error_PER_promedio ''SINAMBOS'' TypeError])"
  by (simp add: fixture_defs model_defs)

lemma procesar_desconocido: "procesar yf_ejemplo ''BADTICKER'' = (Inl ProviderError, [])"
  by (simp add: fixture_defs model_defs)

section \<open>The guarded ratios\<close>

text \<open>
  Claim C1. For every ticker whose record is produced and for each of the eight guarded
  ratios (current ratio, debt-to-assets, debt-to-equity, dividend yield, ROA, ROE,
  price-to-sales, price-to-earnings): if the numerator and the denominator input are
  both present and nonzero, the ratio field holds the quotient of those two inputs.
\<close>

theorem guarded_ratios_equal_quotients:
  assumes "procesar yf tk = (Inr r, lg)"
  shows "(presente_no_cero (activo_corriente r) \<and> presente_no_cero (pasivo_corriente r) \<longrightarrow>
            es_cociente (razon_circulante r) (activo_corriente r) (pasivo_corriente r)) \<and>
         (presente_no_cero (deuda_total r) \<and> presente_no_cero (activos_totales r) \<longrightarrow>
            es_cociente (deudas_a_activos r) (deuda_total r) (activos_totales r)) \<and>
         (presente_no_cero (deuda_total r) \<and> presente_no_cero (capital_contable r) \<longrightarrow>
            es_cociente (deuda_a_capital r) (deuda_total r) (capital_contable r)) \<and>
         (presente_no_cero (dividendos_anuales r) \<and> presente_no_cero (precio_de_cierre r) \<longrightarrow>
            es_cociente (rendimiento_dividendos r) (dividendos_anuales r) (precio_de_cierre r)) \<and>
         (presente_no_cero (utilidad_neta r) \<and> presente_no_cero (activos_totales r) \<longrightarrow>
            es_cociente (roa r) (utilidad_neta r) (activos_totales r)) \<and>
         (presente_no_cero (utilidad_neta r) \<and> presente_no_cero (capital_contable_promedio r) \<longrightarrow>
            es_cociente (roe r) (utilidad_neta r) (capital_contable_promedio r)) \<and>
         (presente_no_cero (capitalizacion_bursatil r) \<and> presente_no_cero (ventas r) \<longrightarrow>
            es_cociente (precio_a_ventas r) (capitalizacion_bursatil r) (ventas r)) \<and>
         (presente_no_cero (capitalizacion_bursatil r) \<and> presente_no_cero (utilidad_neta r) \<longrightarrow>
            es_cociente (precio_ganancia r) (capitalizacion_bursatil r) (utilidad_neta r))"
  by (simp add: procesar_ratios [OF assms] cociente_guardado_presente)

text \<open>
  The complete fixture: every input is present and nonzero, and each ratio is the
  quotient of its two inputs (current ratio 150 / 100, debt-to-assets 400 / 1000, dividend
  yield 5 / 50, and so on).
\<close>

theorem guarded_ratios_equal_quotients_witness:
  "procesar yf_ejemplo ''ACME'' = (Inr registro_acme, []) \<and>
   razon_circulante registro_acme = Some (Fin (150 / 100)) \<and>
   deudas_a_activos registro_acme = Some (Fin (400 / 1000)) \<and>
   deuda_a_capital registro_acme = Some (Fin (400 / 600)) \<and>
   rendimiento_dividendos registro_acme = Some (Fin (5 / 50)) \<and>
   roa registro_acme = Some (Fin (200 / 1000)) \<and>
   roe registro_acme = Some (Fin (200 / 580)) \<and>
   precio_a_ventas registro_acme = Some (Fin (5000 / 2500)) \<and>
   precio_ganancia registro_acme = Some (Fin (5000 / 200))"
  using guarded_ratios_equal_quotients [OF procesar_acme] procesar_acme
  by (simp add: registro_acme_def presente_no_cero_def es_cociente_def)

text \<open>
  Claim C2. For every produced record and each of the eight guarded ratios: if the
  numerator or the denominator input is absent (null) or zero, the ratio field is null
  (not zero, not an error value); the field is a field of the record type, so it is part
  of the record's shape whatever its value.
\<close>

theorem missing_input_gives_null_ratio:
  assumes "procesar yf tk = (Inr r, lg)"
  shows "(ausente_o_cero (activo_corriente r) \<or> ausente_o_cero (pasivo_corriente r) \<longrightarrow>
            razon_circulante r = None) \<and>
         (ausente_o_cero (deuda_total r) \<or> ausente_o_cero (activos_totales r) \<longrightarrow>
            deudas_a_activos r = None) \<and>
         (ausente_o_cero (deuda_total r) \<or> ausente_o_cero (capital_contable r) \<longrightarrow>
            deuda_a_capital r = None) \<and>
         (ausente_o_cero (dividendos_anuales r) \<or> ausente_o_cero (precio_de_cierre r) \<longrightarrow>
            rendimiento_dividendos r = None) \<and>
         (ausente_o_cero (utilidad_neta r) \<or> ausente_o_cero (activos_totales r) \<longrightarrow>
            roa r = None) \<and>
         (ausente_o_cero (utilidad_neta r) \<or> ausente_o_cero (capital_contable_promedio r) \<longrightarrow>
            roe r = None) \<and>
         (ausente_o_cero (capitalizacion_bursatil r) \<or> ausente_o_cero (ventas r) \<longrightarrow>
            precio_a_ventas r = None) \<and>
         (ausente_o_cero (capitalizacion_bursatil r) \<or> ausente_o_cero (utilidad_neta r) \<longrightarrow>
            precio_ganancia r = None)"
  by (simp add: procesar_ratios [OF assms] cociente_guardado_ausente)

text \<open>
  The fixture with gaps: a missing row, a zero value, an empty history and a null
  dictionary entry each leave the ratios that depend on them null, in a record that is
  produced all the same.
\<close>

theorem missing_input_gives_null_ratio_witness:
  "procesar yf_ejemplo ''CERO'' = (Inr registro_cero, [Error_PER_promedio ''CERO'' TypeError]) \<and>
   pasivo_corriente registro_cero = None \<and> razon_circulante registro_cero = None \<and>
   deuda_total registro_cero = Some (Fin 0) \<and> deudas_a_activos registro_cero = None \<and>
   capital_contable registro_cero = None \<and> deuda_a_capital registro_cero = None \<and>
   dividendos_anuales registro_cero = Some (Fin 0) \<and> precio_de_cierre registro_cero = None \<and>
   rendimiento_dividendos registro_cero = None \<and>
   utilidad_neta registro_cero = Some (Fin 0) \<and> roa registro_cero = None \<and>
   capital_contable_promedio registro_cero = None \<and> roe registro_cero = None \<and>
   capitalizacion_bursatil registro_cero = None \<and> precio_a_ventas registro_cero = None \<and>
   precio_ganancia registro_cero = None"
  using missing_input_gives_null_ratio [OF procesar_cero] procesar_cero
  by (simp add: registro_cero_def ausente_o_cero_def)

section \<open>The loop and the per-ticker error boundary\<close>

text \<open>The rows of the result are the starting rows followed by the completed records.\<close>

lemma bucle_filas:
  "fst (bucle yf tks (data, salida)) = data @ filas_completadas yf tks"
  by (induction tks arbitrary: data salida)
     (auto simp: filas_completadas_def split: prod.splits sum.splits)

lemma bucle_salida:
  "set salida \<subseteq> set (snd (bucle yf tks (data, salida)))"
proof (induction tks arbitrary: data salida)
  case Nil
  then show ?case by simp
next
  case (Cons a tks)
  show ?case
  proof (cases "procesar yf a")
    case (Pair res lg)
    show ?thesis
    proof (cases res)
      case (Inl e)
      have "set (salida @ lg @ [Error_al_procesar a e])
              \<subseteq> set (snd (bucle yf tks (data, salida @ lg @ [Error_al_procesar a e])))"
        by (rule Cons.IH)
      then show ?thesis using Pair Inl by auto
    next
      case (Inr r)
      have "set (salida @ lg) \<subseteq> set (snd (bucle yf tks (data @ [r], salida @ lg)))"
        by (rule Cons.IH)
      then show ?thesis using Pair Inr by auto
    qed
  qed
qed

lemma bucle_registra:
  "tk \<in> set tks \<Longrightarrow> fst (procesar yf tk) = Inl e \<Longrightarrow>
   Error_al_procesar tk e \<in> set (snd (bucle yf tks (data, salida)))"
proof (induction tks arbitrary: data salida)
  case Nil
  then show ?case by simp
next
  case (Cons a tks)
  show ?case
  proof (cases "a = tk")
    case True
    obtain lg where p: "procesar yf tk = (Inl e, lg)"
      using Cons.prems(2) by (cases "procesar yf tk") auto
    have "Error_al_procesar tk e \<in> set (salida @ lg @ [Error_al_procesar tk e])" by simp
    then show ?thesis
      using bucle_salida [of "salida @ lg @ [Error_al_procesar tk e]" yf tks data] True p
      by auto
  next
    case False
    then have "tk \<in> set tks" using Cons.prems(1) by simp
    then show ?thesis
      using Cons.IH Cons.prems(2) by (auto split: prod.splits sum.splits)
  qed
qed

lemma filas_completadas_append:
  "filas_completadas yf (a @ b) = filas_completadas yf a @ filas_completadas yf b"
  by (simp add: filas_completadas_def)

lemma ticker_filas:
  "map ticker (filas_completadas yf tks) = filter (\<lambda>tk. \<not> isl (fst (procesar yf tk))) tks"
proof (induction tks)
  case Nil
  then show ?case by (simp add: filas_completadas_def)
next
  case (Cons a tks)
  show ?case
  proof (cases "procesar yf a")
    case (Pair res lg)
    show ?thesis
    proof (cases res)
      case (Inl e)
      with Pair Cons.IH show ?thesis by (simp add: filas_completadas_def)
    next
      case (Inr r)
      with Pair have "procesar yf a = (Inr r, lg)" by simp
      from procesar_fuentes [OF this] obtain stock bs s h1 d qf where
        "yf a = Inr stock" "quarterly_balance_sheet stock = Inr bs"
        "dividends stock = Inr s" "history_1d stock = Inr h1" "info stock = Inr d"
        "quarterly_financials stock = Inr qf" by blast
      from procesar_campos(1) [OF \<open>procesar yf a = (Inr r, lg)\<close> this]
      have "ticker r = a" .
      with Pair Inr Cons.IH show ?thesis by (simp add: filas_completadas_def)
    qed
  qed
qed

lemma sin_trailingPE:
  assumes "yf tk = Inr stock" and "info stock = Inr d" and "d ''trailingPE'' = None"
  shows "isl (fst (procesar yf tk))"
  using assms
  by (auto simp: procesar_def Let_def dict_item_def split: sum.splits prod.splits)

text \<open>
  Claim C3. For every input sequence of tickers: a ticker whose processing raises an
  exception (the unguarded \<^verbatim>\<open>trailingPE\<close> lookup included) contributes no row, the
  tickers after it are processed as if it had not been there, and the result table has
  exactly one row per ticker that completed without exception, in input order, each row
  being the complete record of its ticker. The failure is printed with the ticker.
\<close>

theorem per_ticker_error_boundary:
  "fst (obtener_datos_financieros yf tickers) = filas_completadas yf tickers \<and>
   map ticker (fst (obtener_datos_financieros yf tickers)) =
     filter (\<lambda>tk. \<not> isl (fst (procesar yf tk))) tickers \<and>
   (isl (fst (procesar yf tk)) \<longrightarrow>
      fst (obtener_datos_financieros yf (antes @ tk # despues)) =
        fst (obtener_datos_financieros yf antes) @ fst (obtener_datos_financieros yf despues)) \<and>
   (\<forall>stock d. yf tk = Inr stock \<and> info stock = Inr d \<and> d ''trailingPE'' = None \<longrightarrow>
      isl (fst (procesar yf tk))) \<and>
   (\<forall>e. tk \<in> set tickers \<and> fst (procesar yf tk) = Inl e \<longrightarrow>
      Error_al_procesar tk e \<in> set (snd (obtener_datos_financieros yf tickers)))"
proof -
  have filas: "fst (obtener_datos_financieros yf ts) = filas_completadas yf ts" for ts
    by (simp add: obtener_datos_financieros_def bucle_filas)
  have "filas_completadas yf [tk] = []" if "isl (fst (procesar yf tk))"
    using that by (cases "fst (procesar yf tk)") (simp_all add: filas_completadas_def)
  then have salto: "isl (fst (procesar yf tk)) \<longrightarrow>
      filas_completadas yf (antes @ tk # despues) =
        filas_completadas yf antes @ filas_completadas yf despues"
    using filas_completadas_append [of yf antes "[tk] @ despues"]
      filas_completadas_append [of yf "[tk]" despues] by simp
  have registra: "Error_al_procesar tk e \<in> set (snd (obtener_datos_financieros yf tickers))"
    if "tk \<in> set tickers" and "fst (procesar yf tk) = Inl e" for e
    using that by (simp add: obtener_datos_financieros_def bucle_registra)
  have sin_clave: "isl (fst (procesar yf tk))"
    if "yf tk = Inr stock" and "info stock = Inr d" and "d ''trailingPE'' = None" for stock d
    using that by (rule sin_trailingPE)
  show ?thesis
    using salto registra sin_clave by (simp add: filas ticker_filas)
qed

text \<open>
  A mixed batch: an unknown symbol and a company without \<^verbatim>\<open>trailingPE\<close> between two
  complete companies leave exactly the two complete rows, in order.
\<close>

theorem per_ticker_error_boundary_witness:
  "isl (fst (procesar yf_ejemplo ''SINPER'')) \<and>
   yf_ejemplo ''SINPER'' = Inr stock_sin_per \<and>
   info stock_sin_per = Inr (info_acme(''trailingPE'' := None)) \<and>
   (info_acme(''trailingPE'' := None)) ''trailingPE'' = None \<and>
   fst (procesar yf_ejemplo ''SINPER'') = Inl KeyError \<and>
   Error_al_procesar ''SINPER'' KeyError \<in>
     set (snd (obtener_datos_financieros yf_ejemplo [''ACME'', ''BADTICKER'', ''SINPER'', ''OTRA''])) \<and>
   fst (obtener_datos_financieros yf_ejemplo [''ACME'', ''BADTICKER'', ''SINPER'', ''OTRA'']) =
     [registro_acme, registro_otra] \<and>
   fst (obtener_datos_financieros yf_ejemplo [''ACME'', ''BADTICKER'']) = [registro_acme] \<and>
   fst (obtener_datos_financieros yf_ejemplo [''OTRA'']) = [registro_otra] \<and>
   map ticker [registro_acme, registro_otra] = [''ACME'', ''OTRA'']"
  using per_ticker_error_boundary
          [of yf_ejemplo "[''ACME'', ''BADTICKER'', ''SINPER'', ''OTRA'']" "''SINPER''"
              "[''ACME'', ''BADTICKER'']" "[''OTRA'']"]
  by (simp add: obtener_datos_financieros_def filas_completadas_def procesar_acme
        procesar_desconocido procesar_sin_per procesar_otra stock_sin_per_def
        yf_ejemplo_def registro_acme_def registro_otra_def)

section \<open>Annual dividends\<close>

text \<open>
  Looking up a year in the grouped sums, with zero as default, gives the sum of the
  rows of that year: a year without rows has no group, and the sum of no rows is zero.
\<close>

lemma groupby_get_default:
  assumes "groupby_year_sum s = Inr g"
  shows "get_default g y (Fin 0) = series_sum (map snd (filter (\<lambda>(y', a). y' = y) (rows s)))"
proof -
  let ?f = "\<lambda>y. series_sum (del_anio y (rows s))"
  let ?ks = "sort (remdups (map fst (rows s)))"
  have g: "g = map (\<lambda>y. (y, ?f y)) ?ks"
    using assms by (simp add: groupby_year_sum_def split: if_splits)
  have anio: "del_anio y (rows s) = map snd (filter (\<lambda>(y', a). y' = y) (rows s))"
    by (simp add: del_anio_def case_prod_unfold)
  show ?thesis
  proof (cases "y \<in> fst ` set (rows s)")
    case True
    then have "map_of g y = Some (?f y)"
      by (simp add: g map_of_map_restrict)
    then show ?thesis by (simp add: get_default_def anio)
  next
    case False
    then have "map_of g y = None"
      by (simp add: g map_of_map_restrict)
    moreover have "filter (\<lambda>(y', a). y' = y) (rows s) = []"
      using False by (auto simp: filter_empty_conv image_iff)
    ultimately show ?thesis by (simp add: get_default_def series_sum_def)
  qed
qed

lemma series_sum_Fin: "series_sum (map Fin xs) = Fin (sum_list xs)"
  by (induction xs) (simp_all add: series_sum_def)

text \<open>
  Claim C6. For every dividend series the provider returns, the annual-dividends field
  is the sum of exactly the dividend events dated in 2023, the year written into the
  program; events of other years are left out, and without any event in 2023 the field
  is zero, not null.
\<close>

theorem annual_dividends_sum_of_2023:
  assumes "procesar yf tk = (Inr r, lg)" and "yf tk = Inr stock" and "dividends stock = Inr s"
  shows "dividendos_anuales r =
           Some (series_sum (map snd (filter (\<lambda>(y, a). y = 2023) (rows s)))) \<and>
         (\<forall>xs. map snd (filter (\<lambda>(y, a). y = 2023) (rows s)) = map Fin xs \<longrightarrow>
            dividendos_anuales r = Some (Fin (sum_list xs))) \<and>
         (filter (\<lambda>(y, a). y = 2023) (rows s) = [] \<longrightarrow> dividendos_anuales r = Some (Fin 0))"
proof -
  from procesar_fuentes [OF assms(1)] assms(2,3) obtain bs h1 d qf where
    src: "quarterly_balance_sheet stock = Inr bs" "history_1d stock = Inr h1"
      "info stock = Inr d" "quarterly_financials stock = Inr qf" by auto
  from procesar_campos(7) [OF assms(1,2) src(1) assms(3) src(2,3,4)]
  obtain g where "groupby_year_sum s = Inr g"
    and "dividendos_anuales r = Some (get_default g 2023 (Fin 0))" by blast
  then have eq: "dividendos_anuales r =
      Some (series_sum (map snd (filter (\<lambda>(y, a). y = 2023) (rows s))))"
    by (simp add: groupby_get_default)
  show ?thesis
    by (auto simp: eq series_sum_Fin) (simp add: series_sum_def)
qed

text \<open>
  Events in 2022, 2023 (two of them) and 2024: the field is the sum of the two of 2023.
  Events in 2022 and 2024 only: the field is zero.
\<close>

theorem annual_dividends_sum_of_2023_witness:
  "procesar yf_ejemplo ''ACME'' = (Inr registro_acme, []) \<and>
   yf_ejemplo ''ACME'' = Inr stock_acme \<and> dividends stock_acme = Inr dividendos_acme \<and>
   rows dividendos_acme = [(2022, Fin 1), (2023, Fin 2), (2023, Fin 3), (2024, Fin 4)] \<and>
   map snd (filter (\<lambda>(y, a). y = 2023) (rows dividendos_acme)) = map Fin [2, 3] \<and>
   dividendos_anuales registro_acme = Some (Fin (2 + 3)) \<and>
   procesar yf_ejemplo ''CERO'' = (Inr registro_cero, [Error_PER_promedio ''CERO'' TypeError]) \<and>
   yf_ejemplo ''CERO'' = Inr stock_cero \<and>
   dividends stock_cero = Inr \<lparr>datetime_index = True, rows = [(2022, Fin 1), (2024, Fin 4)]\<rparr> \<and>
   filter (\<lambda>(y, a). y = 2023) [(2022 :: nat, Fin 1), (2024, Fin 4)] = [] \<and>
   dividendos_anuales registro_cero = Some (Fin 0)"
  using annual_dividends_sum_of_2023 [of yf_ejemplo "''ACME''" registro_acme "[]" stock_acme
          dividendos_acme]
        annual_dividends_sum_of_2023 [of yf_ejemplo "''CERO''" registro_cero
          "[Error_PER_promedio ''CERO'' TypeError]" stock_cero
          "\<lparr>datetime_index = True, rows = [(2022, Fin 1), (2024, Fin 4)]\<rparr>"]
        procesar_acme procesar_cero
  by (simp add: yf_ejemplo_def stock_acme_def stock_cero_def dividendos_acme_def
        registro_acme_def registro_cero_def)

section \<open>Average equity\<close>

text \<open>
  Claim C7. The average-equity field has a value if and only if the quarterly balance
  sheet has the equity row with at least two quarterly entries; it is then the mean of
  the first two entries, which are the two most recent quarters; with no equity row, or
  fewer than two entries, it is null.
\<close>

theorem average_equity_needs_two_quarters:
  assumes "procesar yf tk = (Inr r, lg)" and "yf tk = Inr stock"
    and "quarterly_balance_sheet stock = Inr bs"
  shows "(capital_contable_promedio r \<noteq> None) =
           (case bs ''Total Equity Gross Minority Interest'' of
              None \<Rightarrow> False | Some equity \<Rightarrow> 2 \<le> length equity) \<and>
         (\<forall>e0 e1 resto. bs ''Total Equity Gross Minority Interest'' = Some (e0 # e1 # resto) \<longrightarrow>
            capital_contable_promedio r = Some (num_div (num_add e0 e1) (Fin 2))) \<and>
         (\<forall>a b resto.
            bs ''Total Equity Gross Minority Interest'' = Some (Fin a # Fin b # resto) \<longrightarrow>
            capital_contable_promedio r = Some (Fin ((a + b) / 2)))"
proof -
  from procesar_fuentes [OF assms(1)] assms(2,3) obtain s h1 d qf where
    src: "dividends stock = Inr s" "history_1d stock = Inr h1"
      "info stock = Inr d" "quarterly_financials stock = Inr qf" by auto
  have eq: "capital_contable_promedio r = promedio_capital bs"
    by (rule procesar_campos(9) [OF assms src])
  show ?thesis
    by (auto simp: eq promedio_capital_def split: option.splits)
qed

text \<open>Two quarters of equity, 600 and 560, give 580; a single quarter gives null.\<close>

theorem average_equity_needs_two_quarters_witness:
  "procesar yf_ejemplo ''ACME'' = (Inr registro_acme, []) \<and>
   yf_ejemplo ''ACME'' = Inr stock_acme \<and>
   quarterly_balance_sheet stock_acme = Inr balance_acme \<and>
   balance_acme ''Total Equity Gross Minority Interest'' = Some [Fin 600, Fin 560] \<and>
   capital_contable_promedio registro_acme = Some (Fin ((600 + 560) / 2)) \<and>
   procesar yf_ejemplo ''UNTRIM'' = (Inr registro_un_trimestre, []) \<and>
   yf_ejemplo ''UNTRIM'' = Inr stock_un_trimestre \<and>
   quarterly_balance_sheet stock_un_trimestre = Inr balance_un_trimestre \<and>
   balance_un_trimestre ''Total Equity Gross Minority Interest'' = Some [Fin 600] \<and>
   capital_contable_promedio registro_un_trimestre = None"
  using average_equity_needs_two_quarters [of yf_ejemplo "''ACME''" registro_acme "[]"
          stock_acme balance_acme]
        average_equity_needs_two_quarters [of yf_ejemplo "''UNTRIM''" registro_un_trimestre "[]"
          stock_un_trimestre balance_un_trimestre]
        procesar_acme procesar_un_trimestre
  by (simp add: yf_ejemplo_def stock_acme_def stock_un_trimestre_def balance_acme_def
        balance_un_trimestre_def registro_acme_def registro_un_trimestre_def)

section \<open>Computed equity\<close>

text \<open>
  Claim C8 says that presence alone decides whether the subtraction is performed. The
  guard of line 32 is a truth test, and zero is false: with total assets 1000 and total
  liabilities 0, both present, the field is null and not 1000.
\<close>

theorem equity_present_but_zero_counterexample:
  "procesar yf_ejemplo ''CERO'' = (Inr registro_cero, [Error_PER_promedio ''CERO'' TypeError]) \<and>
   activos_totales registro_cero = Some (Fin 1000) \<and>
   deuda_total registro_cero = Some (Fin 0) \<and>
   capital_contable registro_cero = None \<and>
   \<not> es_diferencia (capital_contable registro_cero)
        (activos_totales registro_cero) (deuda_total registro_cero)"
  using procesar_cero by (simp add: registro_cero_def es_diferencia_def)

text \<open>
  Claim C8, amended. The computed-equity field equals total assets minus total
  liabilities whenever both are present and nonzero, and is null otherwise, so also
  when one of them is present and zero.
\<close>

theorem computed_equity_guarded_by_truth:
  assumes "procesar yf tk = (Inr r, lg)"
  shows "(presente_no_cero (activos_totales r) \<and> presente_no_cero (deuda_total r) \<longrightarrow>
            es_diferencia (capital_contable r) (activos_totales r) (deuda_total r)) \<and>
         (ausente_o_cero (activos_totales r) \<or> ausente_o_cero (deuda_total r) \<longrightarrow>
            capital_contable r = None)"
proof -
  from procesar_fuentes [OF assms] obtain stock bs s h1 d qf where
    src: "yf tk = Inr stock" "quarterly_balance_sheet stock = Inr bs"
      "dividends stock = Inr s" "history_1d stock = Inr h1" "info stock = Inr d"
      "quarterly_financials stock = Inr qf" by blast
  have eq: "capital_contable r = resta_guardada (activos_totales r) (deuda_total r)"
    by (rule procesar_campos(6) [OF assms src])
  show ?thesis
    by (simp add: eq resta_guardada_presente resta_guardada_ausente)
qed

text \<open>Assets 1000 and liabilities 400 give 600; liabilities 0 give null.\<close>

theorem computed_equity_guarded_by_truth_witness:
  "procesar yf_ejemplo ''ACME'' = (Inr registro_acme, []) \<and>
   activos_totales registro_acme = Some (Fin 1000) \<and>
   deuda_total registro_acme = Some (Fin 400) \<and>
   capital_contable registro_acme = Some (Fin (1000 - 400)) \<and>
   procesar yf_ejemplo ''CERO'' = (Inr registro_cero, [Error_PER_promedio ''CERO'' TypeError]) \<and>
   deuda_total registro_cero = Some (Fin 0) \<and>
   capital_contable registro_cero = None"
  using computed_equity_guarded_by_truth [OF procesar_acme]
        computed_equity_guarded_by_truth [OF procesar_cero] procesar_acme procesar_cero
  by (simp add: registro_acme_def registro_cero_def presente_no_cero_def ausente_o_cero_def
        es_diferencia_def)

section \<open>Closing price\<close>



section \<open>Return on equity\<close>

text \<open>
  Claim C10. The ROE field divides net income by the two-quarter average equity, not by
  the computed equity that debt-to-equity divides by; so ROE is null whenever the equity
  row is missing or has fewer than two entries, even if the computed equity is available
  and nonzero.
\<close>

theorem roe_uses_average_equity:
  assumes "procesar yf tk = (Inr r, lg)" and "yf tk = Inr stock"
    and "quarterly_balance_sheet stock = Inr bs"
  shows "roe r = cociente_guardado (utilidad_neta r) (capital_contable_promedio r) \<and>
         deuda_a_capital r = cociente_guardado (deuda_total r) (capital_contable r) \<and>
         (presente_no_cero (utilidad_neta r) \<and> presente_no_cero (capital_contable_promedio r) \<longrightarrow>
            es_cociente (roe r) (utilidad_neta r) (capital_contable_promedio r)) \<and>
         ((case bs ''Total Equity Gross Minority Interest'' of
             None \<Rightarrow> True | Some equity \<Rightarrow> length equity < 2) \<longrightarrow>
            capital_contable_promedio r = None \<and> roe r = None)"
proof -
  from procesar_fuentes [OF assms(1)] assms(2,3) obtain s h1 d qf where
    src: "dividends stock = Inr s" "history_1d stock = Inr h1"
      "info stock = Inr d" "quarterly_financials stock = Inr qf" by auto
  have eq: "capital_contable_promedio r = promedio_capital bs"
    by (rule procesar_campos(9) [OF assms src])
  have nulo: "promedio_capital bs = None"
    if "case bs ''Total Equity Gross Minority Interest'' of
          None \<Rightarrow> True | Some equity \<Rightarrow> length equity < 2"
    using that by (auto simp: promedio_capital_def split: option.splits)
  have sin: "cociente_guardado n None = None" for n
    by (simp add: cociente_guardado_def)
  show ?thesis
    using nulo
    by (auto simp: procesar_ratios [OF assms(1)] cociente_guardado_presente eq sin)
qed

text \<open>
  One quarter of balance sheet: the computed equity is 600 and debt-to-equity has a
  value, yet ROE is null. With two quarters ROE is net income over the average 580.
\<close>

theorem roe_uses_average_equity_witness:
  "procesar yf_ejemplo ''UNTRIM'' = (Inr registro_un_trimestre, []) \<and>
   yf_ejemplo ''UNTRIM'' = Inr stock_un_trimestre \<and>
   quarterly_balance_sheet stock_un_trimestre = Inr balance_un_trimestre \<and>
   balance_un_trimestre ''Total Equity Gross Minority Interest'' = Some [Fin 600] \<and>
   utilidad_neta registro_un_trimestre = Some (Fin 200) \<and>
   capital_contable registro_un_trimestre = Some (Fin 600) \<and>
   deuda_a_capital registro_un_trimestre = Some (Fin (400 / 600)) \<and>
   roe registro_un_trimestre = None \<and>
   procesar yf_ejemplo ''ACME'' = (Inr registro_acme, []) \<and>
   capital_contable_promedio registro_acme = Some (Fin 580) \<and>
   roe registro_acme = Some (Fin (200 / 580))"
  using roe_uses_average_equity [of yf_ejemplo "''UNTRIM''" registro_un_trimestre "[]"
          stock_un_trimestre balance_un_trimestre]
        roe_uses_average_equity [of yf_ejemplo "''ACME''" registro_acme "[]"
          stock_acme balance_acme]
        procesar_un_trimestre procesar_acme
  by (simp add: yf_ejemplo_def stock_acme_def stock_un_trimestre_def balance_acme_def
        balance_un_trimestre_def registro_acme_def registro_un_trimestre_def)

section \<open>The ten-year average price-to-earnings\<close>

text \<open>On a series of finite numbers the pandas mean is the arithmetic mean.\<close>

lemma finitos_Fin: "finitos (map Fin xs) = xs"
  by (induction xs) simp_all

lemma series_mean_Fin: "xs \<noteq> [] \<Longrightarrow> series_mean (map Fin xs) = Fin (media_aritmetica xs)"
  by (simp add: series_mean_def finitos_Fin media_aritmetica_def)

text \<open>What the inner \<^verbatim>\<open>try\<close> computed, when it ended without exception.\<close>

lemma calcular_per_promedio_Inr:
  assumes "calcular_per_promedio stock eps = Inr v"
  shows "\<exists>h medias. history_10y_1mo stock = Inr h \<and> resample_YE_mean h = Inr medias \<and>
     (case eps of
        Some e \<Rightarrow> v = series_mean (map (\<lambda>m. num_div m e) (ultimos 10 medias))
      | None \<Rightarrow> ultimos 10 medias = [] \<and> v = NaN)"
  using assms
  by (auto simp: calcular_per_promedio_def series_div_def series_mean_def
           split: sum.splits option.splits if_splits)

lemma ultimos_vacio: "ultimos 10 xs = [] \<Longrightarrow> xs = []"
  by (cases xs) (auto simp: ultimos_def)

text \<open>
  Claim C4. When the ten-year average P/E computation succeeds, its value is the mean of
  the last ten yearly means of the monthly closing prices, each divided by the one
  current earnings per share; the earnings per share is the most recent quarterly net
  income divided by the shares outstanding, computed only when both are present and
  nonzero. On finite numbers the mean is the arithmetic mean of the quotients. (When
  there is no earnings per share the computation succeeds only on a history without
  rows, and its value is \<^verbatim>\<open>nan\<close>.)
\<close>

theorem ten_year_average_pe_formula:
  assumes "procesar yf tk = (Inr r, lg)" and "per_promedio r = Some v"
    and "yf tk = Inr stock" and "info stock = Inr d"
  shows "\<exists>h medias. history_10y_1mo stock = Inr h \<and> resample_YE_mean h = Inr medias \<and>
     (case eps_del_registro r d of
        Some eps \<Rightarrow> v = series_mean (map (\<lambda>m. num_div m eps) (ultimos 10 medias))
      | None \<Rightarrow> medias = [] \<and> v = NaN) \<and>
     (\<forall>ms e. ms \<noteq> [] \<and> ultimos 10 medias = map Fin ms \<and> eps_del_registro r d = Some (Fin e) \<longrightarrow>
        v = Fin (media_aritmetica (map (\<lambda>m. m / e) ms))) \<and>
     (presente_no_cero (utilidad_neta r) \<and> presente_no_cero (dict_get d ''sharesOutstanding'') \<longrightarrow>
        es_cociente (eps_del_registro r d) (utilidad_neta r) (dict_get d ''sharesOutstanding'')) \<and>
     (ausente_o_cero (utilidad_neta r) \<or> ausente_o_cero (dict_get d ''sharesOutstanding'') \<longrightarrow>
        eps_del_registro r d = None)"
proof -
  from procesar_fuentes [OF assms(1)] assms(3,4) obtain bs s h1 qf where
    src: "quarterly_balance_sheet stock = Inr bs" "dividends stock = Inr s"
      "history_1d stock = Inr h1" "quarterly_financials stock = Inr qf" by auto
  have "per_promedio r =
      (case calcular_per_promedio stock (eps_del_registro r d) of
         Inr v \<Rightarrow> Some v | Inl e \<Rightarrow> None)"
    unfolding eps_del_registro_def
    by (rule procesar_campos(14) [OF assms(1,3) src(1,2,3) assms(4) src(4)])
  with assms(2) have "calcular_per_promedio stock (eps_del_registro r d) = Inr v"
    by (simp split: sum.splits)
  from calcular_per_promedio_Inr [OF this] obtain h medias where
    h: "history_10y_1mo stock = Inr h" and m: "resample_YE_mean h = Inr medias"
    and v: "case eps_del_registro r d of
        Some e \<Rightarrow> v = series_mean (map (\<lambda>m. num_div m e) (ultimos 10 medias))
      | None \<Rightarrow> ultimos 10 medias = [] \<and> v = NaN" by blast
  have general: "case eps_del_registro r d of
        Some eps \<Rightarrow> v = series_mean (map (\<lambda>m. num_div m eps) (ultimos 10 medias))
      | None \<Rightarrow> medias = [] \<and> v = NaN"
    using v by (auto split: option.splits dest: ultimos_vacio)
  have finito: "v = Fin (media_aritmetica (map (\<lambda>m. m / e) ms))"
    if "ms \<noteq> []" and "ultimos 10 medias = map Fin ms"
      and "eps_del_registro r d = Some (Fin e)" for ms e
  proof -
    from that(3) have "e \<noteq> 0"
      unfolding eps_del_registro_def by (rule cociente_guardado_no_cero)
    with v that show ?thesis
      using series_mean_Fin [of "map (\<lambda>m. m / e) ms"] by (simp add: comp_def)
  qed
  have eps_ok: "presente_no_cero (utilidad_neta r) \<and>
        presente_no_cero (dict_get d ''sharesOutstanding'') \<longrightarrow>
        es_cociente (eps_del_registro r d) (utilidad_neta r) (dict_get d ''sharesOutstanding'')"
    by (simp add: eps_del_registro_def cociente_guardado_presente)
  have eps_no: "ausente_o_cero (utilidad_neta r) \<or>
        ausente_o_cero (dict_get d ''sharesOutstanding'') \<longrightarrow> eps_del_registro r d = None"
    by (simp add: eps_del_registro_def cociente_guardado_ausente)
  show ?thesis
    using h m general finito eps_ok eps_no by blast
qed

text \<open>
  Eleven calendar years of prices, the oldest with mean 1000 and the others 10 to 100:
  the oldest year is left out, the earnings per share is 200 / 100, and the field is
  the mean of 5, 10, ..., 50.
\<close>

theorem ten_year_average_pe_formula_witness:
  "procesar yf_ejemplo ''ACME'' = (Inr registro_acme, []) \<and>
   per_promedio registro_acme = Some (Fin (55 / 2)) \<and>
   yf_ejemplo ''ACME'' = Inr stock_acme \<and> info stock_acme = Inr info_acme \<and>
   history_10y_1mo stock_acme = Inr precios_acme \<and>
   resample_YE_mean precios_acme =
     Inr (map Fin [1000, 10, 20, 30, 40, 50, 60, 70, 80, 90, 100]) \<and>
   ultimos 10 (map Fin [1000, 10, 20, 30, 40, 50, 60, 70, 80, 90, 100]) =
     map Fin [10, 20, 30, 40, 50, 60, 70, 80, 90, 100] \<and>
   utilidad_neta registro_acme = Some (Fin 200) \<and>
   dict_get info_acme ''sharesOutstanding'' = Some (Fin 100) \<and>
   eps_del_registro registro_acme info_acme = Some (Fin (200 / 100)) \<and>
   media_aritmetica (map (\<lambda>m. m / (200 / 100)) [10, 20, 30, 40, 50, 60, 70, 80, 90, 100]) = 55 / 2"
  using ten_year_average_pe_formula [of yf_ejemplo "''ACME''" registro_acme "[]" "Fin (55 / 2)"
          stock_acme info_acme] procesar_acme
  by (simp add: yf_ejemplo_def stock_acme_def info_acme_def precios_acme_def registro_acme_def
        eps_del_registro_def cociente_guardado_def dict_get_def resample_YE_mean_def
        del_anio_def series_mean_def ultimos_def media_aritmetica_def)

text \<open>
  The result of a ticker, apart from the ten-year field, does not depend on what the
  ten-year history answers nor on the shares outstanding.
\<close>

lemma procesar_sin_per_promedio:
  assumes "yf tk = Inr stock" and "info stock = Inr d"
    and "yf' tk = Inr (stock\<lparr>history_10y_1mo := h', info := Inr (d(''sharesOutstanding'' := x))\<rparr>)"
  shows "sin_per_promedio (fst (procesar yf' tk)) = sin_per_promedio (fst (procesar yf tk))"
  using assms
  by (auto simp: procesar_def Let_def sin_per_promedio_def dict_get_def dict_item_def
           split: sum.splits prod.splits)

lemma calcular_per_promedio_eps_None:
  assumes "history_10y_1mo stock = Inr h" and "resample_YE_mean h = Inr (m # ms)"
  shows "calcular_per_promedio stock None = Inl TypeError"
proof -
  have "ultimos 10 (m # ms) \<noteq> []"
    by (auto simp: ultimos_def)
  then show ?thesis
    using assms by (simp add: calcular_per_promedio_def series_div_def)
qed

text \<open>What a ticker printed is part of what the program printed.\<close>

lemma bucle_impreso:
  "tk \<in> set tks \<Longrightarrow>
   set (snd (procesar yf tk)) \<subseteq> set (snd (bucle yf tks (data, salida)))"
proof (induction tks arbitrary: data salida)
  case Nil
  then show ?case by simp
next
  case (Cons a tks)
  show ?case
  proof (cases "a = tk")
    case True
    show ?thesis
    proof (cases "procesar yf tk")
      case (Pair res lg)
      show ?thesis
      proof (cases res)
        case (Inl e)
        have "set lg \<subseteq> set (salida @ lg @ [Error_al_procesar tk e])" by auto
        also have "\<dots> \<subseteq> set (snd (bucle yf tks (data, salida @ lg @ [Error_al_procesar tk e])))"
          by (rule bucle_salida)
        finally show ?thesis using True Pair Inl by simp
      next
        case (Inr r)
        have "set lg \<subseteq> set (salida @ lg)" by auto
        also have "\<dots> \<subseteq> set (snd (bucle yf tks (data @ [r], salida @ lg)))"
          by (rule bucle_salida)
        finally show ?thesis using True Pair Inr by simp
      qed
    qed
  next
    case False
    then have "tk \<in> set tks" using Cons.prems by simp
    then show ?thesis
      using Cons.IH by (auto split: prod.splits sum.splits)
  qed
qed

text \<open>
  Once the body of a ticker has reached the ten-year step and the step fails, the
  message of the inner \<^verbatim>\<open>except\<close> is printed, whatever happens to the ticker afterwards.
\<close>

lemma procesar_impreso_alcanzado:
  assumes "yf tk = Inr stock" and "info stock = Inr d"
    and "quarterly_balance_sheet stock = Inr bs"
    and "primer_valor bs ''Current Assets'' = Inr v1"
    and "primer_valor bs ''Current Liabilities'' = Inr v2"
    and "primer_valor bs ''Total Liabilities Net Minority Interest'' = Inr v3"
    and "primer_valor bs ''Total Assets'' = Inr v4"
    and "dividends stock = Inr s" and "groupby_year_sum s = Inr g"
    and "history_1d stock = Inr h1"
    and "quarterly_financials stock = Inr qf"
    and "primer_valor qf ''Net Income'' = Inr un"
    and "calcular_per_promedio stock
           (cociente_guardado un (dict_get d ''sharesOutstanding'')) = Inl e"
  shows "snd (procesar yf tk) = [Error_PER_promedio tk e]"
  using assms by (simp add: procesar_def Let_def split: sum.splits)

text \<open>
  Claim C5. If a failure occurs inside the ten-year average P/E step, the ten-year field
  of the ticker's record is null and the failure is printed with the ticker: the message
  is printed as soon as the step is reached and fails, also when the ticker then fails
  on \<^verbatim>\<open>trailingPE\<close>, and it is part of the output of the whole run, where the ticker's
  record is a row of the result. Whether the ticker yields a record, and every other
  field of that record, are the same whatever the inputs of this step (the ten-year
  history, the shares outstanding) are, so the step's failure neither aborts the ticker
  nor touches another field. The step fails when the history fetch raises, when the
  history has no date index to resample, and when there is no earnings per share to
  divide a yearly mean by.
\<close>

theorem per_promedio_failure_is_contained:
  assumes "yf tk = Inr stock" and "info stock = Inr d"
  shows "(\<forall>r lg e. procesar yf tk = (Inr r, lg) \<and>
            calcular_per_promedio stock (eps_del_registro r d) = Inl e \<longrightarrow>
            per_promedio r = None \<and> lg = [Error_PER_promedio tk e]) \<and>
         (\<forall>yf' h' x.
            yf' tk = Inr (stock\<lparr>history_10y_1mo := h',
                                info := Inr (d(''sharesOutstanding'' := x))\<rparr>) \<longrightarrow>
            sin_per_promedio (fst (procesar yf' tk)) = sin_per_promedio (fst (procesar yf tk))) \<and>
         (\<forall>e eps. history_10y_1mo stock = Inl e \<longrightarrow> calcular_per_promedio stock eps = Inl e) \<and>
         (\<forall>h eps. history_10y_1mo stock = Inr h \<and> \<not> datetime_index h \<longrightarrow>
            calcular_per_promedio stock eps = Inl TypeError) \<and>
         (\<forall>h m ms. history_10y_1mo stock = Inr h \<and> resample_YE_mean h = Inr (m # ms) \<longrightarrow>
            calcular_per_promedio stock None = Inl TypeError) \<and>
         (\<forall>bs v1 v2 v3 v4 s g h1 qf un e.
            quarterly_balance_sheet stock = Inr bs \<and>
            primer_valor bs ''Current Assets'' = Inr v1 \<and>
            primer_valor bs ''Current Liabilities'' = Inr v2 \<and>
            primer_valor bs ''Total Liabilities Net Minority Interest'' = Inr v3 \<and>
            primer_valor bs ''Total Assets'' = Inr v4 \<and>
            dividends stock = Inr s \<and> groupby_year_sum s = Inr g \<and>
            history_1d stock = Inr h1 \<and>
            quarterly_financials stock = Inr qf \<and>
            primer_valor qf ''Net Income'' = Inr un \<and>
            calcular_per_promedio stock
              (cociente_guardado un (dict_get d ''sharesOutstanding'')) = Inl e \<longrightarrow>
            snd (procesar yf tk) = [Error_PER_promedio tk e]) \<and>
         (\<forall>tickers. tk \<in> set tickers \<longrightarrow>
            set (snd (procesar yf tk)) \<subseteq> set (snd (obtener_datos_financieros yf tickers)) \<and>
            (\<forall>r lg. procesar yf tk = (Inr r, lg) \<longrightarrow>
               r \<in> set (fst (obtener_datos_financieros yf tickers))))"
proof -
  have falla: "per_promedio r = None \<and> lg = [Error_PER_promedio tk e]"
    if p: "procesar yf tk = (Inr r, lg)"
      and c: "calcular_per_promedio stock (eps_del_registro r d) = Inl e" for r lg e
  proof -
    from procesar_fuentes [OF p] assms obtain bs s h1 qf where
      src: "quarterly_balance_sheet stock = Inr bs" "dividends stock = Inr s"
        "history_1d stock = Inr h1" "quarterly_financials stock = Inr qf" by auto
    note campos = procesar_campos [OF p assms(1) src(1,2,3) assms(2) src(4)]
    show ?thesis
      using campos(14) campos(15) c by (simp add: eps_del_registro_def)
  qed
  have igual: "sin_per_promedio (fst (procesar yf' tk)) = sin_per_promedio (fst (procesar yf tk))"
    if "yf' tk = Inr (stock\<lparr>history_10y_1mo := h', info := Inr (d(''sharesOutstanding'' := x))\<rparr>)"
    for yf' h' x
    using assms that by (rule procesar_sin_per_promedio)
  have sin_historia: "calcular_per_promedio stock eps = Inl e"
    if "history_10y_1mo stock = Inl e" for e eps
    using that by (simp add: calcular_per_promedio_def)
  have sin_fechas: "calcular_per_promedio stock eps = Inl TypeError"
    if "history_10y_1mo stock = Inr h" and "\<not> datetime_index h" for h eps
    using that by (simp add: calcular_per_promedio_def resample_YE_mean_def)
  have sin_eps: "calcular_per_promedio stock None = Inl TypeError"
    if "history_10y_1mo stock = Inr h" and "resample_YE_mean h = Inr (m # ms)" for h m ms
    using that by (rule calcular_per_promedio_eps_None)
  have alcanzado: "snd (procesar yf tk) = [Error_PER_promedio tk e]"
    if "quarterly_balance_sheet stock = Inr bs"
      and "primer_valor bs ''Current Assets'' = Inr v1"
      and "primer_valor bs ''Current Liabilities'' = Inr v2"
      and "primer_valor bs ''Total Liabilities Net Minority Interest'' = Inr v3"
      and "primer_valor bs ''Total Assets'' = Inr v4"
      and "dividends stock = Inr s" and "groupby_year_sum s = Inr g"
      and "history_1d stock = Inr h1"
      and "quarterly_financials stock = Inr qf"
      and "primer_valor qf ''Net Income'' = Inr un"
      and "calcular_per_promedio stock
             (cociente_guardado un (dict_get d ''sharesOutstanding'')) = Inl e"
    for bs v1 v2 v3 v4 s g h1 qf un e
    using assms that by (rule procesar_impreso_alcanzado)
  have salida: "set (snd (procesar yf tk)) \<subseteq> set (snd (obtener_datos_financieros yf tickers))"
    if "tk \<in> set tickers" for tickers
    using that by (simp add: obtener_datos_financieros_def bucle_impreso)
  have fila: "r \<in> set (fst (obtener_datos_financieros yf tickers))"
    if "tk \<in> set tickers" and "procesar yf tk = (Inr r, lg)" for tickers r lg
    using that by (force simp: obtener_datos_financieros_def bucle_filas filas_completadas_def)
  have c1: "\<forall>r lg e. procesar yf tk = (Inr r, lg) \<and>
            calcular_per_promedio stock (eps_del_registro r d) = Inl e \<longrightarrow>
            per_promedio r = None \<and> lg = [Error_PER_promedio tk e]"
    using falla by blast
  have c2: "\<forall>yf' h' x.
            yf' tk = Inr (stock\<lparr>history_10y_1mo := h',
                                info := Inr (d(''sharesOutstanding'' := x))\<rparr>) \<longrightarrow>
            sin_per_promedio (fst (procesar yf' tk)) = sin_per_promedio (fst (procesar yf tk))"
    using igual by blast
  have c3: "\<forall>e eps. history_10y_1mo stock = Inl e \<longrightarrow> calcular_per_promedio stock eps = Inl e"
    using sin_historia by blast
  have c4: "\<forall>h eps. history_10y_1mo stock = Inr h \<and> \<not> datetime_index h \<longrightarrow>
            calcular_per_promedio stock eps = Inl TypeError"
    using sin_fechas by blast
  have c5: "\<forall>h m ms. history_10y_1mo stock = Inr h \<and> resample_YE_mean h = Inr (m # ms) \<longrightarrow>
            calcular_per_promedio stock None = Inl TypeError"
    using sin_eps by blast
  have c6: "\<forall>bs v1 v2 v3 v4 s g h1 qf un e.
            quarterly_balance_sheet stock = Inr bs \<and>
            primer_valor bs ''Current Assets'' = Inr v1 \<and>
            primer_valor bs ''Current Liabilities'' = Inr v2 \<and>
            primer_valor bs ''Total Liabilities Net Minority Interest'' = Inr v3 \<and>
            primer_valor bs ''Total Assets'' = Inr v4 \<and>
            dividends stock = Inr s \<and> groupby_year_sum s = Inr g \<and>
            history_1d stock = Inr h1 \<and>
            quarterly_financials stock = Inr qf \<and>
            primer_valor qf ''Net Income'' = Inr un \<and>
            calcular_per_promedio stock
              (cociente_guardado un (dict_get d ''sharesOutstanding'')) = Inl e \<longrightarrow>
            snd (procesar yf tk) = [Error_PER_promedio tk e]"
    using alcanzado by blast
  have c7: "\<forall>tickers. tk \<in> set tickers \<longrightarrow>
            set (snd (procesar yf tk)) \<subseteq> set (snd (obtener_datos_financieros yf tickers)) \<and>
            (\<forall>r lg. procesar yf tk = (Inr r, lg) \<longrightarrow>
               r \<in> set (fst (obtener_datos_financieros yf tickers)))"
    using salida fila by blast
  show ?thesis
    by (rule conjI [OF c1 conjI [OF c2 conjI [OF c3 conjI [OF c4 conjI [OF c5 conjI [OF c6 c7]]]]]])
qed


text \<open>
  Three failing companies: without shares outstanding (the division raises), with a
  history fetch that raises, and with a history that cannot be resampled. Each yields
  its record with a null ten-year field, and the first one's record is otherwise the
  same when the inputs of the step are replaced. A fourth company lacks the shares
  outstanding and \<^verbatim>\<open>trailingPE\<close>: it yields no record, and both messages are printed.
  In a batch, the messages of the failing steps are in the output and the record with
  the null field is a row.
\<close>

theorem per_promedio_failure_is_contained_witness:
  "yf_ejemplo ''SINEPS'' = Inr stock_sin_eps \<and> info stock_sin_eps = Inr info_sin_eps \<and>
   procesar yf_ejemplo ''SINEPS'' =
     (Inr registro_sin_eps, [Error_PER_promedio ''SINEPS'' TypeError]) \<and>
   eps_del_registro registro_sin_eps info_sin_eps = None \<and>
   calcular_per_promedio stock_sin_eps None = Inl TypeError \<and>
   per_promedio registro_sin_eps = None \<and>
   sin_per_promedio (fst (procesar
          (\<lambda>tk. Inr (stock_sin_eps\<lparr>history_10y_1mo := Inl ProviderError,
                     info := Inr (info_sin_eps(''sharesOutstanding'' := Some (Some (Fin 100))))\<rparr>))
          ''SINEPS'')) =
     Inr registro_sin_eps \<and>
   yf_ejemplo ''SINHIST'' = Inr stock_sin_historia \<and>
   info stock_sin_historia = Inr info_acme \<and>
   history_10y_1mo stock_sin_historia = Inl ProviderError \<and>
   procesar yf_ejemplo ''SINHIST'' =
     (Inr registro_sin_historia, [Error_PER_promedio ''SINHIST'' ProviderError]) \<and>
   per_promedio registro_sin_historia = None \<and>
   yf_ejemplo ''SINFECHAS'' = Inr stock_sin_fechas \<and>
   info stock_sin_fechas = Inr info_acme \<and>
   history_10y_1mo stock_sin_fechas = Inr \<lparr>datetime_index = False, rows = []\<rparr> \<and>
   calcular_per_promedio stock_sin_fechas (eps_del_registro registro_sin_fechas info_acme) =
     Inl TypeError \<and>
   per_promedio registro_sin_fechas = None \<and>
   yf_ejemplo ''SINAMBOS'' = Inr stock_sin_ambos \<and>
   info stock_sin_ambos = Inr info_sin_ambos \<and>
   info_sin_ambos ''trailingPE'' = None \<and>
   calcular_per_promedio stock_sin_ambos
     (cociente_guardado (Some (Fin 200)) (dict_get info_sin_ambos ''sharesOutstanding'')) =
     Inl TypeError \<and>
   procesar yf_ejemplo ''SINAMBOS'' =
     (Inl KeyError, [Error_PER_promedio ''SINAMBOS'' TypeError]) \<and>
   Error_PER_promedio ''SINAMBOS'' TypeError \<in>
     set (snd (obtener_datos_financieros yf_ejemplo [''ACME'', ''SINAMBOS'', ''SINEPS''])) \<and>
   Error_PER_promedio ''SINEPS'' TypeError \<in>
     set (snd (obtener_datos_financieros yf_ejemplo [''ACME'', ''SINAMBOS'', ''SINEPS''])) \<and>
   registro_sin_eps \<in>
     set (fst (obtener_datos_financieros yf_ejemplo [''ACME'', ''SINAMBOS'', ''SINEPS''])) \<and>
   obtener_datos_financieros yf_ejemplo [''ACME'', ''SINAMBOS'', ''SINEPS''] =
     ([registro_acme, registro_sin_eps],
      [Error_PER_promedio ''SINAMBOS'' TypeError, Error_al_procesar ''SINAMBOS'' KeyError,
       Error_PER_promedio ''SINEPS'' TypeError])"
proof -
  have a1: "yf_ejemplo ''SINEPS'' = Inr stock_sin_eps"
    by (simp add: yf_ejemplo_def)
  have a2: "info stock_sin_eps = Inr info_sin_eps"
    by (simp add: stock_sin_eps_def stock_acme_def)
  note t1 = per_promedio_failure_is_contained
    [of yf_ejemplo "''SINEPS''" stock_sin_eps info_sin_eps, OF a1 a2]
  have a3: "eps_del_registro registro_sin_eps info_sin_eps = None"
    by (simp add: eps_del_registro_def registro_sin_eps_def registro_acme_def info_sin_eps_def
          info_acme_def dict_get_def cociente_guardado_def)
  have a4: "history_10y_1mo stock_sin_eps = Inr precios_acme"
    by (simp add: stock_sin_eps_def stock_acme_def)
  have a5: "resample_YE_mean precios_acme =
      Inr (Fin 1000 # map Fin [10, 20, 30, 40, 50, 60, 70, 80, 90, 100])"
    by (simp add: resample_YE_mean_def precios_acme_def del_anio_def series_mean_def)
  note t1_falla = t1 [THEN conjunct1]
  note t1_igual = t1 [THEN conjunct2, THEN conjunct1]
  note t1_sin_eps =
    t1 [THEN conjunct2, THEN conjunct2, THEN conjunct2, THEN conjunct2, THEN conjunct1]
  note t1_salida = t1 [THEN conjunct2, THEN conjunct2, THEN conjunct2, THEN conjunct2,
                       THEN conjunct2, THEN conjunct2]
  from t1_sin_eps a4 a5 have a6: "calcular_per_promedio stock_sin_eps None = Inl TypeError"
    by blast
  from a3 a6 have "calcular_per_promedio stock_sin_eps
      (eps_del_registro registro_sin_eps info_sin_eps) = Inl TypeError" by simp
  with t1_falla procesar_sin_eps
  have a7: "per_promedio registro_sin_eps = None" by blast
  have ind: "sin_per_promedio (fst (procesar yf' ''SINEPS'')) =
      sin_per_promedio (fst (procesar yf_ejemplo ''SINEPS''))"
    if "yf' ''SINEPS'' = Inr (stock_sin_eps\<lparr>history_10y_1mo := h',
                               info := Inr (info_sin_eps(''sharesOutstanding'' := x))\<rparr>)"
    for yf' h' x
    using t1_igual that by blast
  have "sin_per_promedio (fst (procesar
          (\<lambda>tk. Inr (stock_sin_eps\<lparr>history_10y_1mo := Inl ProviderError,
                     info := Inr (info_sin_eps(''sharesOutstanding'' := Some (Some (Fin 100))))\<rparr>))
          ''SINEPS'')) = sin_per_promedio (fst (procesar yf_ejemplo ''SINEPS''))"
    by (rule ind) (rule refl)
  then have a8: "sin_per_promedio (fst (procesar
          (\<lambda>tk. Inr (stock_sin_eps\<lparr>history_10y_1mo := Inl ProviderError,
                     info := Inr (info_sin_eps(''sharesOutstanding'' := Some (Some (Fin 100))))\<rparr>))
          ''SINEPS'')) = Inr registro_sin_eps"
    by (simp add: procesar_sin_eps sin_per_promedio_def registro_sin_eps_def)
  have b1: "yf_ejemplo ''SINHIST'' = Inr stock_sin_historia"
    by (simp add: yf_ejemplo_def)
  have b2: "info stock_sin_historia = Inr info_acme"
    by (simp add: stock_sin_historia_def stock_acme_def)
  note t2 = per_promedio_failure_is_contained
    [of yf_ejemplo "''SINHIST''" stock_sin_historia info_acme, OF b1 b2]
  have b3: "history_10y_1mo stock_sin_historia = Inl ProviderError"
    by (simp add: stock_sin_historia_def)
  note t2_falla = t2 [THEN conjunct1]
  note t2_sin_historia = t2 [THEN conjunct2, THEN conjunct2, THEN conjunct1]
  from t2_sin_historia b3 have b4: "calcular_per_promedio stock_sin_historia
      (eps_del_registro registro_sin_historia info_acme) = Inl ProviderError" by blast
  from t2_falla procesar_sin_historia b4
  have b5: "per_promedio registro_sin_historia = None" by blast
  have c1: "yf_ejemplo ''SINFECHAS'' = Inr stock_sin_fechas"
    by (simp add: yf_ejemplo_def)
  have c2: "info stock_sin_fechas = Inr info_acme"
    by (simp add: stock_sin_fechas_def stock_acme_def)
  note t3 = per_promedio_failure_is_contained
    [of yf_ejemplo "''SINFECHAS''" stock_sin_fechas info_acme, OF c1 c2]
  have c3: "history_10y_1mo stock_sin_fechas = Inr \<lparr>datetime_index = False, rows = []\<rparr>"
    by (simp add: stock_sin_fechas_def)
  have c4: "\<not> datetime_index \<lparr>datetime_index = False, rows = ([] :: (nat \<times> pynum) list)\<rparr>"
    by simp
  note t3_falla = t3 [THEN conjunct1]
  note t3_sin_fechas = t3 [THEN conjunct2, THEN conjunct2, THEN conjunct2, THEN conjunct1]
  from t3_sin_fechas c3 c4 have c5: "calcular_per_promedio stock_sin_fechas
      (eps_del_registro registro_sin_fechas info_acme) = Inl TypeError" by blast
  from t3_falla procesar_sin_fechas c5
  have c6: "per_promedio registro_sin_fechas = None" by blast
  have d1: "yf_ejemplo ''SINAMBOS'' = Inr stock_sin_ambos"
    by (simp add: yf_ejemplo_def)
  have d2: "info stock_sin_ambos = Inr info_sin_ambos"
    by (simp add: stock_sin_ambos_def stock_acme_def)
  note t4 = per_promedio_failure_is_contained
    [of yf_ejemplo "''SINAMBOS''" stock_sin_ambos info_sin_ambos, OF d1 d2]
  note t4_alcanzado = t4 [THEN conjunct2, THEN conjunct2, THEN conjunct2, THEN conjunct2,
                          THEN conjunct2, THEN conjunct1]
  note t4_salida = t4 [THEN conjunct2, THEN conjunct2, THEN conjunct2, THEN conjunct2,
                       THEN conjunct2, THEN conjunct2]
  have d3: "info_sin_ambos ''trailingPE'' = None"
    by (simp add: info_sin_ambos_def)
  have e1: "quarterly_balance_sheet stock_sin_ambos = Inr balance_acme"
    by (simp add: stock_sin_ambos_def stock_acme_def)
  have e2: "primer_valor balance_acme ''Current Assets'' = Inr (Some (Fin 150))"
    by (simp add: primer_valor_def balance_acme_def)
  have e3: "primer_valor balance_acme ''Current Liabilities'' = Inr (Some (Fin 100))"
    by (simp add: primer_valor_def balance_acme_def)
  have e4: "primer_valor balance_acme ''Total Liabilities Net Minority Interest'' =
      Inr (Some (Fin 400))"
    by (simp add: primer_valor_def balance_acme_def)
  have e5: "primer_valor balance_acme ''Total Assets'' = Inr (Some (Fin 1000))"
    by (simp add: primer_valor_def balance_acme_def)
  have e6: "dividends stock_sin_ambos = Inr dividendos_acme"
    by (simp add: stock_sin_ambos_def stock_acme_def)
  have e7: "groupby_year_sum dividendos_acme = Inr [(2022, Fin 1), (2023, Fin 5), (2024, Fin 4)]"
    by (simp add: groupby_year_sum_def dividendos_acme_def del_anio_def series_sum_def)
  have e8: "history_1d stock_sin_ambos = Inr \<lparr>datetime_index = True, rows = [(2026, Fin 50)]\<rparr>"
    by (simp add: stock_sin_ambos_def stock_acme_def)
  have e9: "quarterly_financials stock_sin_ambos = Inr [''Net Income'' \<mapsto> [Fin 200, Fin 180]]"
    by (simp add: stock_sin_ambos_def stock_acme_def)
  have e10: "primer_valor [''Net Income'' \<mapsto> [Fin 200, Fin 180]] ''Net Income'' =
      Inr (Some (Fin 200))"
    by (simp add: primer_valor_def)
  have e11: "calcular_per_promedio stock_sin_ambos
      (cociente_guardado (Some (Fin 200)) (dict_get info_sin_ambos ''sharesOutstanding'')) =
      Inl TypeError"
    by (simp add: fixture_defs model_defs)
  from t4_alcanzado e1 e2 e3 e4 e5 e6 e7 e8 e9 e10 e11
  have d4: "snd (procesar yf_ejemplo ''SINAMBOS'') = [Error_PER_promedio ''SINAMBOS'' TypeError]"
    by blast
  have en_lote: "''SINAMBOS'' \<in> set [''ACME'', ''SINAMBOS'', ''SINEPS'']"
    "''SINEPS'' \<in> set [''ACME'', ''SINAMBOS'', ''SINEPS'']" by simp_all
  from t4_salida en_lote(1)
  have "set (snd (procesar yf_ejemplo ''SINAMBOS'')) \<subseteq>
      set (snd (obtener_datos_financieros yf_ejemplo [''ACME'', ''SINAMBOS'', ''SINEPS'']))"
    by blast
  with d4 have d5: "Error_PER_promedio ''SINAMBOS'' TypeError \<in>
      set (snd (obtener_datos_financieros yf_ejemplo [''ACME'', ''SINAMBOS'', ''SINEPS'']))"
    by simp
  from t1_salida en_lote(2)
  have s1: "set (snd (procesar yf_ejemplo ''SINEPS'')) \<subseteq>
      set (snd (obtener_datos_financieros yf_ejemplo [''ACME'', ''SINAMBOS'', ''SINEPS'']))"
    and s2: "\<forall>r lg. procesar yf_ejemplo ''SINEPS'' = (Inr r, lg) \<longrightarrow>
      r \<in> set (fst (obtener_datos_financieros yf_ejemplo [''ACME'', ''SINAMBOS'', ''SINEPS'']))"
    by blast+
  from s1 have d6: "Error_PER_promedio ''SINEPS'' TypeError \<in>
      set (snd (obtener_datos_financieros yf_ejemplo [''ACME'', ''SINAMBOS'', ''SINEPS'']))"
    by (simp add: procesar_sin_eps)
  from s2 procesar_sin_eps have d7: "registro_sin_eps \<in>
      set (fst (obtener_datos_financieros yf_ejemplo [''ACME'', ''SINAMBOS'', ''SINEPS'']))"
    by blast
  have d8: "obtener_datos_financieros yf_ejemplo [''ACME'', ''SINAMBOS'', ''SINEPS''] =
     ([registro_acme, registro_sin_eps],
      [Error_PER_promedio ''SINAMBOS'' TypeError, Error_al_procesar ''SINAMBOS'' KeyError,
       Error_PER_promedio ''SINEPS'' TypeError])"
    by (simp add: obtener_datos_financieros_def procesar_acme procesar_sin_ambos
          procesar_sin_eps)
  show ?thesis
    using a1 a2 procesar_sin_eps a3 a6 a7 a8 b1 b2 b3 procesar_sin_historia b5 c1 c2 c3 c5 c6
      d1 d2 d3 e11 procesar_sin_ambos d5 d6 d7 d8
    by blast
qed

end
